theory Spec2Isabelle
  imports Complex_Main "HOL-Library.Monad_Syntax"
begin

section \<open>Numbers, arrays and indexing\<close>

text \<open>
  The module \<^verbatim>\<open>l5kit/kinematic/ackerman_perturbation.py\<close> works on numpy arrays of
  floating-point numbers. Numbers are modelled as \<^typ>\<open>real\<close> and arithmetic on them is
  exact: the rounding of arithmetic results, infinities and NaN are not represented. The
  one conversion between number formats that the module writes down, the storage of the
  joint trajectory in an array of single precision (line 55), is the function \<open>float32\<close>
  below. A one-dimensional array is a list, a two-dimensional array is a list of rows. A Python exception is the
  value \<open>None\<close> of an option type, so that every function of the module is a function into
  \<open>option\<close> wherever the source can raise.
\<close>

definition NUMERICAL_THRESHOLD :: real where
  "NUMERICAL_THRESHOLD = 1 / 100000"

text \<open>
  Storing a number in a \<^verbatim>\<open>float32\<close> array rounds it to the nearest number of the IEEE
  single format, ties to the even significand: 24 significant bits above the exponent
  \<open>-126\<close>, multiples of \<open>2 powi (-149)\<close> below it. The overflow to an infinity (beyond
  about \<open>3.4e38\<close>) is not represented.
\<close>

definition round_half_even :: "real \<Rightarrow> int" where
  "round_half_even r =
     (let f = \<lfloor>r\<rfloor> in
      if r - of_int f < 1 / 2 then f
      else if 1 / 2 < r - of_int f then f + 1
      else if even f then f else f + 1)"

definition float32 :: "real \<Rightarrow> real" where
  "float32 x =
     (if x = 0 then 0
      else let e = max \<lfloor>log 2 \<bar>x\<bar>\<rfloor> (- 126); ulp = 2 powi (e - 23)
           in of_int (round_half_even (x / ulp)) * ulp)"

text \<open>Python indexing: an index \<open>i\<close> with \<open>-n \<le> i < 0\<close> counts from the end, anything
  outside \<open>-n \<le> i < n\<close> raises \<^verbatim>\<open>IndexError\<close>.\<close>

definition py_index :: "nat \<Rightarrow> int \<Rightarrow> nat option" where
  "py_index n i =
     (if 0 \<le> i \<and> i < int n then Some (nat i)
      else if - int n \<le> i \<and> i < 0 then Some (nat (int n + i))
      else None)"

definition py_get :: "'a list \<Rightarrow> int \<Rightarrow> 'a option" where
  "py_get xs i = map_option (\<lambda>k. xs ! k) (py_index (length xs) i)"

definition py_set :: "'a list \<Rightarrow> int \<Rightarrow> 'a \<Rightarrow> 'a list option" where
  "py_set xs i v = map_option (\<lambda>k. xs[k := v]) (py_index (length xs) i)"

text \<open>\<^verbatim>\<open>a[:, c]\<close> of a two-dimensional array: the column \<open>c\<close>; it raises when the rows are
  too short.\<close>

definition column :: "nat \<Rightarrow> 'a list list \<Rightarrow> 'a list option" where
  "column c rows = those (map (\<lambda>r. if c < length r then Some (r ! c) else None) rows)"

text \<open>\<^verbatim>\<open>np.linalg.norm\<close> of a one-dimensional array: the Euclidean norm over all of its
  entries.\<close>

definition linalg_norm :: "real list \<Rightarrow> real" where
  "linalg_norm v = sqrt (sum_list (map (\<lambda>c. c\<^sup>2) v))"

text \<open>Elementwise arithmetic of one-dimensional arrays of equal shape.\<close>

definition vsub :: "real list \<Rightarrow> real list \<Rightarrow> real list" where
  "vsub a b = map2 (-) a b"

definition vadd :: "real list \<Rightarrow> real list \<Rightarrow> real list" where
  "vadd a b = map2 (+) a b"

definition vscale :: "real \<Rightarrow> real list \<Rightarrow> real list" where
  "vscale k a = map (\<lambda>c. k * c) a"

definition vdiv :: "real list \<Rightarrow> real \<Rightarrow> real list" where
  "vdiv a k = map (\<lambda>c. c / k) a"

text \<open>
  Assignment \<^verbatim>\<open>lhs[...] = rhs\<close> into a slice of \<open>n\<close> rows: numpy accepts a right-hand side
  of \<open>n\<close> rows, broadcasts one of a single row, and raises \<^verbatim>\<open>ValueError\<close> on any other shape.
\<close>

definition np_assign :: "nat \<Rightarrow> 'a list \<Rightarrow> 'a list option" where
  "np_assign n rhs =
     (if length rhs = n then Some rhs
      else if length rhs = 1 then Some (replicate n (hd rhs))
      else None)"

section \<open>Offset at the perturbation index\<close>

text \<open>
  \<^verbatim>\<open>get_offset_at_idx\<close> (lines 15 to 45). The rows \<^verbatim>\<open>trajectory[i, :]\<close> are taken whole:
  on the three-column rows \<open>(x, y, yaw)\<close> that \<^verbatim>\<open>perturb\<close> passes, the difference of two rows
  and its norm include the yaw column. The normalisation \<^verbatim>\<open>/=\<close> acts on the array that the
  subtraction has just created, never on the trajectory.
\<close>

definition normalized_direction :: "real list list \<Rightarrow> real list \<Rightarrow> real list option" where
  "normalized_direction trajectory longitudinal_direction =
     (let consecutive_point_distance_threshold = 1 / 100000 in
      if linalg_norm longitudinal_direction < consecutive_point_distance_threshold then
        do {
          last_point \<leftarrow> py_get trajectory (- 1);
          first_point \<leftarrow> py_get trajectory 0;
          let overall = vsub last_point first_point;
          if linalg_norm overall < consecutive_point_distance_threshold then Some [0, 0]
          else Some (vdiv overall (linalg_norm overall))
        }
      else Some (vdiv longitudinal_direction (linalg_norm longitudinal_direction)))"

definition get_offset_at_idx ::
  "real list list \<Rightarrow> int \<Rightarrow> real \<Rightarrow> real \<Rightarrow> real list option" where
  "get_offset_at_idx trajectory perturbation_idx lateral_offset_m longitudinal_offset_m =
     (let num_frames = int (length trajectory) in
      if num_frames \<le> perturbation_idx + 1 then Some [0, 0]
      else do {
        point_to_be_perturbed \<leftarrow> py_get trajectory perturbation_idx;
        next_point_in_trajectory \<leftarrow> py_get trajectory (perturbation_idx + 1);
        longitudinal_direction \<leftarrow>
          normalized_direction trajectory (vsub next_point_in_trajectory point_to_be_perturbed);
        l1 \<leftarrow> py_get longitudinal_direction 1;
        l0 \<leftarrow> py_get longitudinal_direction 0;
        let lateral_direction = [l1, - l0];
        Some (vadd (vscale lateral_offset_m lateral_direction)
                   (vscale longitudinal_offset_m (take 2 longitudinal_direction)))
      })"

section \<open>Speeds from positions\<close>

text \<open>
  \<^verbatim>\<open>_compute_speeds_from_positions\<close> (lines 69 to 76): forward differences written into
  \<^verbatim>\<open>speeds[:-1]\<close>, then \<^verbatim>\<open>speeds[-1] = speeds[-2]\<close>, which raises \<^verbatim>\<open>IndexError\<close> on fewer
  than two positions.
\<close>

definition compute_speeds_from_positions :: "real list list \<Rightarrow> real list option" where
  "compute_speeds_from_positions trajectory =
     do {
       xs \<leftarrow> column 0 trajectory;
       ys \<leftarrow> column 1 trajectory;
       let speeds = replicate (length xs) (0::real);
       let forward = map2 (\<lambda>dy dx. sqrt (dy\<^sup>2 + dx\<^sup>2))
                       (vsub (tl ys) (butlast ys)) (vsub (tl xs) (butlast xs));
       front \<leftarrow> np_assign (length (butlast speeds)) forward;
       let speeds = front @ drop (length (butlast speeds)) speeds;
       second_to_last \<leftarrow> py_get speeds (- 2);
       py_set speeds (- 1) second_to_last
     }"

section \<open>Frames and the joint trajectory\<close>

text \<open>
  A frame array is a numpy record array; the module reads and writes two of its fields.
  \<^verbatim>\<open>ego_translation\<close> is a row whose first two entries are the position \<open>(x, y)\<close>; the
  entries after them (the module only ever slices \<^verbatim>\<open>[:, :2]\<close>) are kept in a third
  component. \<^verbatim>\<open>ego_rotation\<close> is the rotation in the representation of the geometry
  helpers \<^verbatim>\<open>rotation33_as_yaw\<close> and \<^verbatim>\<open>yaw_as_rotation33\<close>. These two helpers are imported from
  another module; they are parameters of every definition that calls them. Further fields
  of the frame type live in the extension of the record.
\<close>

record ('z, 'rot) frame =
  ego_translation :: "real \<times> real \<times> 'z"
  ego_rotation :: 'rot

definition xy :: "real \<times> real \<times> 'z \<Rightarrow> real list" where
  "xy t = [fst t, fst (snd t)]"

definition set_xy :: "real \<times> real \<times> 'z \<Rightarrow> real \<times> real \<Rightarrow> real \<times> real \<times> 'z" where
  "set_xy t p = (fst p, snd p, snd (snd t))"

text \<open>
  \<^verbatim>\<open>_get_history_and_future_frames_as_joint_trajectory\<close> (lines 48 to 66): the rows
  \<open>[x, y, yaw]\<close> of the history, reversed, followed by those of the future. The array they
  are written into is created with \<^verbatim>\<open>dtype=np.float32\<close>, so every entry is stored rounded
  to single precision.
\<close>

definition get_history_and_future_frames_as_joint_trajectory ::
  "('rot \<Rightarrow> real) \<Rightarrow> ('z, 'rot, 'm) frame_scheme list \<Rightarrow> ('z, 'rot, 'm) frame_scheme list
     \<Rightarrow> real list list" where
  "get_history_and_future_frames_as_joint_trajectory rotation33_as_yaw history_frames future_frames =
     (let history_rows =
            map2 (\<lambda>p w. map float32 p @ [float32 w])
              (map (\<lambda>f. xy (ego_translation f)) (rev history_frames))
              (map rotation33_as_yaw (map ego_rotation (rev history_frames)));
          future_rows =
            map2 (\<lambda>p w. map float32 p @ [float32 w])
              (map (\<lambda>f. xy (ego_translation f)) future_frames)
              (map rotation33_as_yaw (map ego_rotation future_frames))
      in history_rows @ future_rows)"

section \<open>The targets and weights of the kinematic fit\<close>

text \<open>The twelve arguments of \<^verbatim>\<open>fit_ackerman_model_exact\<close>, in the order of the call.\<close>

record fit_args =
  x0 :: real
  y0 :: real
  r0 :: real
  v0 :: real
  gx :: "real list"
  gy :: "real list"
  gr :: "real list"
  gv :: "real list"
  wgx :: "real list"
  wgy :: "real list"
  wgr :: "real list"
  wgv :: "real list"

text \<open>
  Lines 114 to 146 of \<^verbatim>\<open>perturb\<close>. The anchor index is \<^verbatim>\<open>num_history_frames - 1\<close>, an
  integer that is \<open>-1\<close> for an empty history; every access through it follows Python's
  indexing. The joint trajectory enters as it is stored, in single precision; the two
  in-place additions at the anchor are arithmetic, whose results are exact here as
  everywhere.
\<close>

definition fit_targets ::
  "('rot \<Rightarrow> real) \<Rightarrow> ('z, 'rot, 'm) frame_scheme list \<Rightarrow> ('z, 'rot, 'm) frame_scheme list
     \<Rightarrow> real \<Rightarrow> real \<Rightarrow> real \<Rightarrow> fit_args option" where
  "fit_targets rotation33_as_yaw history_frames future_frames
       lateral_offset_m longitudinal_offset_m yaw_offset_rad =
     (let num_history_frames = length history_frames;
          num_future_frames = length future_frames;
          total_trajectory_length = num_history_frames + num_future_frames;
          anchor = int num_history_frames - 1;
          reference_traj_sample =
            get_history_and_future_frames_as_joint_trajectory rotation33_as_yaw
              history_frames future_frames
      in do {
        offset_m \<leftarrow> get_offset_at_idx reference_traj_sample anchor
                      lateral_offset_m longitudinal_offset_m;
        row \<leftarrow> py_get reference_traj_sample anchor;
        trajectory_with_offset_applied \<leftarrow>
          py_set reference_traj_sample anchor (vadd (take 2 row) offset_m @ drop 2 row);
        row \<leftarrow> py_get trajectory_with_offset_applied anchor;
        yaw \<leftarrow> py_get row 2;
        row \<leftarrow> py_set row 2 (yaw + yaw_offset_rad);
        trajectory_with_offset_applied \<leftarrow> py_set trajectory_with_offset_applied anchor row;
        gx \<leftarrow> column 0 trajectory_with_offset_applied;
        gy \<leftarrow> column 1 trajectory_with_offset_applied;
        gr \<leftarrow> column 2 trajectory_with_offset_applied;
        gv \<leftarrow> compute_speeds_from_positions (map (take 2) trajectory_with_offset_applied);
        first \<leftarrow> py_get trajectory_with_offset_applied 0;
        x0 \<leftarrow> py_get first 0;
        y0 \<leftarrow> py_get first 1;
        r0 \<leftarrow> py_get first 2;
        v0 \<leftarrow> py_get gv 0;
        wgx \<leftarrow> py_set (replicate total_trajectory_length 1) anchor 5;
        wgy \<leftarrow> py_set (replicate total_trajectory_length 1) anchor 5;
        let wgr = replicate total_trajectory_length 0;
        let wgv = replicate total_trajectory_length 0;
        Some \<lparr>x0 = x0, y0 = y0, r0 = r0, v0 = v0, gx = gx, gy = gy, gr = gr, gv = gv,
              wgx = wgx, wgy = wgy, wgr = wgr, wgv = wgv\<rparr>
      })"

section \<open>Writing the fitted trajectory back\<close>

text \<open>
  Lines 163 to 173 of \<^verbatim>\<open>perturb\<close>, on the contents of the two copies made in lines 166 and
  167. \<^verbatim>\<open>zip\<close> stops at the shortest of the three fitted sequences. An assignment through
  the reversed view \<^verbatim>\<open>[::-1]\<close> writes row \<open>k\<close> of the right-hand side into the frame \<open>k\<close>
  from the end.
\<close>

definition split_fitted_trajectory ::
  "(real \<Rightarrow> 'rot) \<Rightarrow> ('z, 'rot, 'm) frame_scheme list \<Rightarrow> ('z, 'rot, 'm) frame_scheme list
     \<Rightarrow> real list \<Rightarrow> real list \<Rightarrow> real list
     \<Rightarrow> (('z, 'rot, 'm) frame_scheme list \<times> ('z, 'rot, 'm) frame_scheme list) option" where
  "split_fitted_trajectory yaw_as_rotation33 history_frames future_frames new_xs new_ys new_yaws =
     (let num_history_frames = length history_frames;
          num_future_frames = length future_frames;
          new_trajectory = zip new_xs (zip new_ys new_yaws);
          new_yaws_as_rotations =
            map (\<lambda>pos_yaw. yaw_as_rotation33 (snd (snd pos_yaw))) new_trajectory;
          positions = map (\<lambda>pos_yaw. (fst pos_yaw, fst (snd pos_yaw))) new_trajectory
      in do {
        history_xy \<leftarrow> np_assign num_history_frames (take num_history_frames positions);
        history_rot \<leftarrow>
          np_assign num_history_frames (take num_history_frames new_yaws_as_rotations);
        future_xy \<leftarrow> np_assign num_future_frames (drop num_history_frames positions);
        future_rot \<leftarrow>
          np_assign num_future_frames (drop num_history_frames new_yaws_as_rotations);
        let new_history_frames =
          rev (map2 (\<lambda>f (p, r). f\<lparr>ego_translation := set_xy (ego_translation f) p,
                                    ego_rotation := r\<rparr>)
                 (rev history_frames) (zip history_xy history_rot));
        let new_future_frames =
          map2 (\<lambda>f (p, r). f\<lparr>ego_translation := set_xy (ego_translation f) p,
                               ego_rotation := r\<rparr>)
            future_frames (zip future_xy future_rot);
        Some (new_history_frames, new_future_frames)
      })"

section \<open>The perturbation\<close>

text \<open>
  The caller's arrays are objects that \<^verbatim>\<open>perturb\<close> could write to, and the claims about
  copies are claims about storage. The store is a list of frame arrays; an address is an
  index into it. \<^verbatim>\<open>a.copy()\<close> appends the contents of \<open>a\<close> to the store and returns the new
  address; an assignment into an array replaces the contents at its address.
\<close>

type_synonym ('z, 'rot, 'm) store = "('z, 'rot, 'm) frame_scheme list list"

definition np_copy :: "'a list \<Rightarrow> nat \<Rightarrow> nat \<times> 'a list" where
  "np_copy store a = (length store, store @ [store ! a])"

definition np_write :: "'a list \<Rightarrow> nat \<Rightarrow> 'a \<Rightarrow> 'a list" where
  "np_write store a contents = store[a := contents]"

text \<open>
  What a call leaves behind: the pair of returned addresses (\<open>None\<close> when the call raised),
  the warnings it emitted, and the store.
\<close>

record ('z, 'rot, 'm) outcome =
  returned :: "(nat \<times> nat) option"
  warnings :: "string list"
  store_after :: "('z, 'rot, 'm) store"

definition return_copies ::
  "('z, 'rot, 'm) store \<Rightarrow> nat \<Rightarrow> nat \<Rightarrow> string list \<Rightarrow> ('z, 'rot, 'm) outcome" where
  "return_copies store history_frames future_frames ws =
     (let (new_history_frames, store) = np_copy store history_frames;
          (new_future_frames, store) = np_copy store future_frames
      in \<lparr>returned = Some (new_history_frames, new_future_frames), warnings = ws,
          store_after = store\<rparr>)"

text \<open>
  \<^verbatim>\<open>AckermanPerturbation.perturb\<close> (lines 95 to 175). \<open>rand\<close> is the value drawn by
  \<^verbatim>\<open>np.random.rand()\<close>, \<open>offsets\<close> the triple that \<^verbatim>\<open>self.random_offset_generator()\<close> returns
  when it is called, and \<open>fit\<close> stands for \<^verbatim>\<open>fit_ackerman_model_exact\<close>, which is imported
  from another module and returns six sequences or raises. \<open>history_frames\<close> and
  \<open>future_frames\<close> are the addresses of the caller's arrays; an address outside the store
  denotes no array, and nothing is returned for it. The source makes the two copies of
  lines 166 and 167 and then assigns into them; the contents assigned are computed by
  \<open>split_fitted_trajectory\<close> from the contents of the copies, which are those of the
  inputs. When the call raises, nothing that it allocated is reachable, and the store is
  returned as it was.
\<close>

definition perturb ::
  "('rot \<Rightarrow> real) \<Rightarrow> (real \<Rightarrow> 'rot)
     \<Rightarrow> (fit_args \<Rightarrow> (real list \<times> real list \<times> real list \<times> real list \<times> real list \<times> real list) option)
     \<Rightarrow> real \<Rightarrow> real \<Rightarrow> real \<times> real \<times> real
     \<Rightarrow> ('z, 'rot, 'm) store \<Rightarrow> nat \<Rightarrow> nat \<Rightarrow> ('z, 'rot, 'm) outcome" where
  "perturb rotation33_as_yaw yaw_as_rotation33 fit perturb_prob rand offsets
       store history_frames future_frames =
     (if \<not> (history_frames < length store \<and> future_frames < length store) then
        \<lparr>returned = None, warnings = [], store_after = store\<rparr>
      else if rand \<ge> perturb_prob then return_copies store history_frames future_frames []
      else
        let (lateral_offset_m, longitudinal_offset_m, yaw_offset_rad) = offsets in
        if \<bar>lateral_offset_m\<bar> < NUMERICAL_THRESHOLD then
          return_copies store history_frames future_frames
            [''ack not applied because of low lateral_distance'']
        else
          let num_history_frames = length (store ! history_frames);
              num_future_frames = length (store ! future_frames);
              total_trajectory_length = num_history_frames + num_future_frames
          in
          if total_trajectory_length < 2 then
            return_copies store history_frames future_frames []
          else
            (case do {
                    targets \<leftarrow> fit_targets rotation33_as_yaw
                                 (store ! history_frames) (store ! future_frames)
                                 lateral_offset_m longitudinal_offset_m yaw_offset_rad;
                    (new_xs, new_ys, new_yaws, new_vs, new_acc, new_steer) \<leftarrow> fit targets;
                    split_fitted_trajectory yaw_as_rotation33
                      (store ! history_frames) (store ! future_frames) new_xs new_ys new_yaws
                  }
             of None \<Rightarrow> \<lparr>returned = None, warnings = [], store_after = store\<rparr>
              | Some (history_contents, future_contents) \<Rightarrow>
                  let (new_history_frames, store) = np_copy store history_frames;
                      (new_future_frames, store) = np_copy store future_frames;
                      store = np_write store new_history_frames history_contents;
                      store = np_write store new_future_frames future_contents
                  in \<lparr>returned = Some (new_history_frames, new_future_frames), warnings = [],
                      store_after = store\<rparr>))"

section \<open>Auxiliary notions for the statements\<close>

text \<open>
  The following definitions name what the source computes in passing: the forward
  difference at one index, the row \<open>[x, y, yaw]\<close> of a frame as the joint trajectory stores
  it, the anchor row after both in-place additions of lines 123 and 126, and a frame as
  it comes back from the joint trajectory: its position rounded to single precision, its
  rotation taken through \<^verbatim>\<open>rotation33_as_yaw\<close>, the single-precision storage and
  \<^verbatim>\<open>yaw_as_rotation33\<close>, everything else as it was.
\<close>

definition forward_speed :: "real list list \<Rightarrow> nat \<Rightarrow> real" where
  "forward_speed ps k =
     sqrt ((ps ! Suc k ! 1 - ps ! k ! 1)\<^sup>2 + (ps ! Suc k ! 0 - ps ! k ! 0)\<^sup>2)"

definition pose_row :: "('rot \<Rightarrow> real) \<Rightarrow> ('z, 'rot, 'm) frame_scheme \<Rightarrow> real list" where
  "pose_row rotation33_as_yaw f =
     map float32 (xy (ego_translation f)) @ [float32 (rotation33_as_yaw (ego_rotation f))]"

definition perturbed_row :: "real list \<Rightarrow> real list \<Rightarrow> real \<Rightarrow> real list" where
  "perturbed_row row offset_m yaw_offset_rad =
     [row ! 0 + offset_m ! 0, row ! 1 + offset_m ! 1, row ! 2 + yaw_offset_rad]"

definition stored_frame ::
  "(real \<Rightarrow> 'rot) \<Rightarrow> ('rot \<Rightarrow> real) \<Rightarrow> ('z, 'rot, 'm) frame_scheme \<Rightarrow> ('z, 'rot, 'm) frame_scheme" where
  "stored_frame yaw_as_rotation33 rotation33_as_yaw f =
     f\<lparr>ego_translation :=
         set_xy (ego_translation f)
           (float32 (fst (ego_translation f)), float32 (fst (snd (ego_translation f)))),
       ego_rotation := yaw_as_rotation33 (float32 (rotation33_as_yaw (ego_rotation f)))\<rparr>"

text \<open>
  A stand-in for the fit, which is code outside the module, used only to run the model
  on concrete inputs: a fit that hands its targets back.
\<close>

definition identity_fit ::
  "fit_args \<Rightarrow> (real list \<times> real list \<times> real list \<times> real list \<times> real list \<times> real list) option" where
  "identity_fit targets = Some (gx targets, gy targets, gr targets, gv targets, [], [])"

text \<open>
  A store for running the model: one history frame at the origin and one future frame one
  metre ahead of it, both with rotation \<open>0\<close> in a representation where a rotation is its
  yaw.
\<close>

definition example_history :: "(real, real) frame list" where
  "example_history = [\<lparr>ego_translation = (0, 0, 0), ego_rotation = 0\<rparr>]"

definition example_future :: "(real, real) frame list" where
  "example_future = [\<lparr>ego_translation = (1, 0, 0), ego_rotation = 0\<rparr>]"

definition example_store :: "(real, real, unit) store" where
  "example_store = [example_history, example_future]"

section \<open>Single precision\<close>

lemma float32_0: "float32 0 = 0"
  by (simp add: float32_def)

lemma float32_at_exponent:
  assumes "2 powi e \<le> \<bar>x\<bar>" and "\<bar>x\<bar> < 2 powi (e + 1)" and "- 126 \<le> e"
  shows "float32 x = of_int (round_half_even (x / 2 powi (e - 23))) * 2 powi (e - 23)"
proof -
  have pos: "0 < \<bar>x\<bar>"
    using assms(1) by (smt (verit) zero_less_power_int zero_less_numeral)
  have "(2::real) powr real_of_int e = 2 powi e"
    and "(2::real) powr (real_of_int e + 1) = 2 powi (e + 1)"
    using powr_real_of_int'[of "2::real" e] powr_real_of_int'[of "2::real" "e + 1"]
    by simp_all
  then have "\<lfloor>log 2 \<bar>x\<bar>\<rfloor> = e"
    using assms(1,2) pos floor_log_eq_powr_iff[of "\<bar>x\<bar>" 2 e] by simp
  then show ?thesis using pos assms(3) by (simp add: float32_def Let_def)
qed

lemma float32_1: "float32 1 = 1"
  using float32_at_exponent[of 0 1]
  by (simp add: round_half_even_def power_int_def power_divide)

lemma float32_2: "float32 2 = 2"
  using float32_at_exponent[of 1 2]
  by (simp add: round_half_even_def power_int_def power_divide)

lemma float32_3: "float32 3 = 3"
  using float32_at_exponent[of 1 3]
  by (simp add: round_half_even_def power_int_def power_divide)

lemma float32_4: "float32 4 = 4"
  using float32_at_exponent[of 2 4]
  by (simp add: round_half_even_def power_int_def power_divide)

lemma float32_16777217: "float32 16777217 = 16777216"
  using float32_at_exponent[of 24 16777217]
  by (simp add: round_half_even_def power_int_def power_divide)

lemma float32_thousandth: "float32 (1 / 1000) = 8589935 / 8589934592"
  using float32_at_exponent[of "- 10" "1 / 1000"]
  by (simp add: round_half_even_def power_int_def power_divide)

lemmas float32_values = float32_0 float32_1 float32_2 float32_3 float32_4

section \<open>Indexing and array lemmas\<close>

lemma those_map_Some: "those (map Some xs) = Some xs"
  by (induction xs) simp_all

lemma column_Some:
  assumes "\<forall>r\<in>set rows. c < length r"
  shows "column c rows = Some (map (\<lambda>r. r ! c) rows)"
proof -
  have "map (\<lambda>r. if c < length r then Some (r ! c) else None) rows = map Some (map (\<lambda>r. r ! c) rows)"
    using assms by simp
  then show ?thesis unfolding column_def by (simp only: those_map_Some)
qed

lemma py_index_nat: "k < n \<Longrightarrow> py_index n (int k) = Some k"
  by (simp add: py_index_def)

lemma py_index_neg: "0 < k \<Longrightarrow> k \<le> n \<Longrightarrow> py_index n (- int k) = Some (n - k)"
  by (auto simp add: py_index_def nat_diff_distrib)

lemma py_get_nat: "k < length xs \<Longrightarrow> py_get xs (int k) = Some (xs ! k)"
  by (simp add: py_get_def py_index_nat)

lemma py_set_nat: "k < length xs \<Longrightarrow> py_set xs (int k) v = Some (xs[k := v])"
  by (simp add: py_set_def py_index_nat)

lemma py_get_minus2: "2 \<le> length xs \<Longrightarrow> py_get xs (- 2) = Some (xs ! (length xs - 2))"
  using py_index_neg[of 2 "length xs"] by (simp add: py_get_def)

lemma py_get_minus1: "1 \<le> length xs \<Longrightarrow> py_get xs (- 1) = Some (xs ! (length xs - 1))"
  using py_index_neg[of 1 "length xs"] by (simp add: py_get_def)

lemma py_set_minus1: "1 \<le> length xs \<Longrightarrow> py_set xs (- 1) v = Some (xs[length xs - 1 := v])"
  using py_index_neg[of 1 "length xs"] by (simp add: py_set_def)

lemma duplicate_last:
  assumes "length front = Suc m"
  shows "do { second_to_last \<leftarrow> py_get (front @ [z]) (- 2); py_set (front @ [z]) (- 1) second_to_last }
         = Some (front @ [front ! m])"
proof -
  have "py_get (front @ [z]) (- 2) = Some ((front @ [z]) ! m)"
    using py_get_minus2[of "front @ [z]"] assms by simp
  moreover have "(front @ [z]) ! m = front ! m"
    using assms by (simp add: nth_append)
  moreover have "py_set (front @ [z]) (- 1) v = Some (front @ [v])" for v
    using py_set_minus1[of "front @ [z]" v] assms list_update_length[of front z "[]" v] by simp
  ultimately show ?thesis by simp
qed

lemma speeds_explicit:
  assumes n: "length ps = Suc (Suc m)" and w: "\<forall>p\<in>set ps. 2 \<le> length p"
  shows "compute_speeds_from_positions ps =
    Some (map (forward_speed ps) [0..<Suc m] @ [forward_speed ps m])"
proof -
  let ?xs = "map (\<lambda>r. r ! 0) ps" and ?ys = "map (\<lambda>r. r ! 1) ps"
  have cx: "column 0 ps = Some ?xs" and cy: "column 1 ps = Some ?ys"
    using w by (auto intro!: column_Some)
  let ?forward = "map2 (\<lambda>dy dx. sqrt (dy\<^sup>2 + dx\<^sup>2))
                       (vsub (tl ?ys) (butlast ?ys)) (vsub (tl ?xs) (butlast ?xs))"
  have fw: "?forward = map (forward_speed ps) [0..<Suc m]"
    by (rule nth_equalityI)
       (simp_all add: n vsub_def nth_tl nth_butlast forward_speed_def del: upt_Suc)
  have "replicate (Suc (Suc m)) (0::real) = replicate (Suc m) 0 @ [0]"
    using replicate_append_same[of "Suc m" "0::real"] by (simp del: replicate_Suc add: replicate_Suc[symmetric])
  then have dr: "drop (Suc m) (replicate (Suc (Suc m)) (0::real)) = [0]"
    by (simp del: replicate_Suc)
  have len: "length (map (forward_speed ps) [0..<Suc m]) = Suc m" by simp
  have lb: "length (butlast (replicate (length ?xs) (0::real))) = Suc m"
    by (simp add: n)
  have dr': "drop (Suc m) (replicate (length ?xs) (0::real)) = [0]"
    using dr by (simp add: n del: replicate_Suc)
  have npa: "np_assign (Suc m) (map (forward_speed ps) [0..<Suc m])
               = Some (map (forward_speed ps) [0..<Suc m])"
    by (simp add: np_assign_def del: upt_Suc)
  have nth: "map (forward_speed ps) [0..<Suc m] ! m = forward_speed ps m"
    by (simp del: upt_Suc)
  show ?thesis
    unfolding compute_speeds_from_positions_def cx cy Let_def
    apply (simp only: Option.bind.bind_lunit lb fw npa dr')
    using duplicate_last[OF len, of 0] by (simp only: nth)
qed


lemma py_index_valid:
  assumes "- int n \<le> i" "i < int n"
  shows "\<exists>k<n. py_index n i = Some k"
  using assms by (auto simp add: py_index_def)

lemma py_get_valid:
  assumes "- int (length xs) \<le> i" "i < int (length xs)"
  shows "\<exists>x\<in>set xs. py_get xs i = Some x"
  using py_index_valid[OF assms] by (auto simp add: py_get_def)

lemma length_vsub: "length (vsub a b) = min (length a) (length b)"
  by (simp add: vsub_def)

lemma length_vdiv: "length (vdiv a k) = length a"
  by (simp add: vdiv_def)

lemma normalized_direction_length:
  assumes rows: "\<forall>r\<in>set trajectory. length r = w" and w: "2 \<le> w"
    and ne: "trajectory \<noteq> []" and d: "length direction = w"
  shows "\<exists>u. normalized_direction trajectory direction = Some u \<and> 2 \<le> length u"
proof -
  have n: "- int (length trajectory) \<le> - 1" "- 1 < int (length trajectory)"
          "- int (length trajectory) \<le> 0" "0 < int (length trajectory)"
    using ne by (simp_all add: Suc_le_eq)
  obtain l where l: "l \<in> set trajectory" "py_get trajectory (- 1) = Some l"
    using py_get_valid[OF n(1,2)] by blast
  obtain f where f: "f \<in> set trajectory" "py_get trajectory 0 = Some f"
    using py_get_valid[OF n(3,4)] by blast
  have "length (vsub l f) = w" using rows l(1) f(1) by (simp add: length_vsub)
  then show ?thesis
    using w d by (simp add: normalized_direction_def l(2) f(2) length_vdiv Let_def)
qed

lemma offset_of_direction_length:
  assumes "2 \<le> length u"
  shows "\<exists>off. (do { l1 \<leftarrow> py_get u 1; l0 \<leftarrow> py_get u 0;
                 let lateral_direction = [l1, - l0];
                 Some (vadd (vscale lat lateral_direction) (vscale long (take 2 u))) }) = Some off
           \<and> length off = 2"
proof -
  have "py_get u (int 1) = Some (u ! 1)" "py_get u (int 0) = Some (u ! 0)"
    using assms by (simp_all only: py_get_nat)
  then show ?thesis using assms by (simp add: vadd_def vscale_def)
qed

lemma get_offset_at_idx_length:
  assumes rows: "\<forall>r\<in>set trajectory. length r = w" and w: "2 \<le> w"
    and i: "- int (length trajectory) \<le> i"
  shows "\<exists>off. get_offset_at_idx trajectory i lat long = Some off \<and> length off = 2"
proof (cases "int (length trajectory) \<le> i + 1")
  case True
  then show ?thesis by (simp add: get_offset_at_idx_def)
next
  case False
  then have ne: "trajectory \<noteq> []" using i by auto
  obtain p where p: "p \<in> set trajectory" "py_get trajectory i = Some p"
    using py_get_valid[of trajectory i] i False by auto
  obtain q where q: "q \<in> set trajectory" "py_get trajectory (i + 1) = Some q"
    using py_get_valid[of trajectory "i + 1"] i False by auto
  have "length (vsub q p) = w" using rows p(1) q(1) by (simp add: length_vsub)
  from normalized_direction_length[OF rows w ne this]
  obtain u where u: "normalized_direction trajectory (vsub q p) = Some u" "2 \<le> length u"
    by blast
  from offset_of_direction_length[OF u(2), of lat long]
  show ?thesis
    using False by (simp add: get_offset_at_idx_def p(2) q(2) u(1))
qed


lemma map2_pose_row:
  "map2 (\<lambda>p w. map float32 p @ [float32 w]) (map (\<lambda>f. xy (ego_translation f)) fs)
          (map r2y (map ego_rotation fs)) = map (pose_row r2y) fs"
  by (induction fs) (simp_all add: pose_row_def)

lemma joint_trajectory_rows:
  "get_history_and_future_frames_as_joint_trajectory r2y h f
     = map (pose_row r2y) (rev h) @ map (pose_row r2y) f"
  unfolding get_history_and_future_frames_as_joint_trajectory_def Let_def
  by (simp only: map2_pose_row)

lemma length_joint_trajectory:
  "length (get_history_and_future_frames_as_joint_trajectory r2y h f) = length h + length f"
  by (simp add: joint_trajectory_rows)

lemma length_pose_row: "length (pose_row r2y f) = 3"
  by (simp add: pose_row_def xy_def)

lemma joint_trajectory_width:
  "\<forall>r\<in>set (get_history_and_future_frames_as_joint_trajectory r2y h f). length r = 3"
  by (auto simp add: joint_trajectory_rows length_pose_row)

lemma three_elements: "length r = 3 \<Longrightarrow> r = [r ! 0, r ! 1, r ! 2]"
  by (auto simp add: length_Suc_conv numeral_3_eq_3 numeral_2_eq_2)

lemma two_elements: "length r = 2 \<Longrightarrow> r = [r ! 0, r ! 1]"
  by (auto simp add: length_Suc_conv numeral_2_eq_2)

lemma anchor_row_get:
  assumes r: "length row = 3" and o: "length off = 2"
  shows "py_get (vadd (take 2 row) off @ drop 2 row) 2 = Some (row ! 2)"
proof -
  obtain a b c where row: "row = [a, b, c]" using three_elements[OF r] by blast
  obtain d e where off: "off = [d, e]" using two_elements[OF o] by blast
  show ?thesis
    by (simp add: row off vadd_def py_get_def py_index_def)
qed

lemma anchor_row_set:
  assumes r: "length row = 3" and o: "length off = 2"
  shows "py_set (vadd (take 2 row) off @ drop 2 row) 2 (row ! 2 + yaw_offset_rad)
           = Some (perturbed_row row off yaw_offset_rad)"
proof -
  obtain a b c where row: "row = [a, b, c]" using three_elements[OF r] by blast
  obtain d e where off: "off = [d, e]" using two_elements[OF o] by blast
  show ?thesis
    by (simp add: row off vadd_def perturbed_row_def py_set_def py_index_def)
qed

lemma py_index_less: "py_index n i = Some k \<Longrightarrow> k < n"
  by (auto simp add: py_index_def split: if_splits)

lemma py_get_at: "py_index (length xs) i = Some k \<Longrightarrow> py_get xs i = Some (xs ! k)"
  by (simp add: py_get_def)

lemma py_set_at: "py_index (length xs) i = Some k \<Longrightarrow> py_set xs i v = Some (xs[k := v])"
  by (simp add: py_set_def)

lemma py_get_0: "0 < length xs \<Longrightarrow> py_get xs 0 = Some (xs ! 0)"
  using py_get_nat[of 0 xs] by simp

lemma py_get_1: "1 < length xs \<Longrightarrow> py_get xs 1 = Some (xs ! 1)"
  using py_get_nat[of 1 xs] by simp

lemma py_get_2: "2 < length xs \<Longrightarrow> py_get xs 2 = Some (xs ! 2)"
  using py_get_nat[of 2 xs] by simp

lemma fit_targets_explicit:
  fixes h f :: "('z, 'rot, 'm) frame_scheme list" and r2y :: "'rot \<Rightarrow> real"
    and off :: "real list" and yaw :: real and k :: nat
  defines "J \<equiv> get_history_and_future_frames_as_joint_trajectory r2y h f"
  assumes N: "length h + length f = Suc (Suc m)"
    and off: "get_offset_at_idx J (int (length h) - 1) lat long = Some off"
    and lo: "length off = 2"
    and k: "py_index (Suc (Suc m)) (int (length h) - 1) = Some k"
  defines "T \<equiv> J[k := perturbed_row (J ! k) off yaw]"
  shows "fit_targets r2y h f lat long yaw =
    Some \<lparr>x0 = T ! 0 ! 0, y0 = T ! 0 ! 1, r0 = T ! 0 ! 2,
          v0 = forward_speed (map (take 2) T) 0,
          gx = map (\<lambda>r. r ! 0) T, gy = map (\<lambda>r. r ! 1) T, gr = map (\<lambda>r. r ! 2) T,
          gv = map (forward_speed (map (take 2) T)) [0..<Suc m]
                 @ [forward_speed (map (take 2) T) m],
          wgx = (replicate (Suc (Suc m)) 1)[k := 5],
          wgy = (replicate (Suc (Suc m)) 1)[k := 5],
          wgr = replicate (Suc (Suc m)) 0, wgv = replicate (Suc (Suc m)) 0\<rparr>"
proof -
  let ?a = "int (length h) - 1"
  let ?X1 = "vadd (take 2 (J ! k)) off @ drop 2 (J ! k)"
  let ?P = "map (take 2) T"
  let ?gv = "map (forward_speed ?P) [0..<Suc m] @ [forward_speed ?P m]"
  have lenJ: "length J = Suc (Suc m)"
    by (simp add: J_def length_joint_trajectory N)
  have kl: "k < length J" using py_index_less[OF k] lenJ by simp
  have kJ: "py_index (length J) ?a = Some k" using k lenJ by simp
  have width: "\<forall>r\<in>set J. length r = 3"
    unfolding J_def by (rule joint_trajectory_width)
  have rowlen: "length (J ! k) = 3" using width kl by simp
  have g1: "py_get J ?a = Some (J ! k)" by (rule py_get_at[OF kJ])
  have s1: "py_set J ?a X = Some (J[k := X])" for X by (rule py_set_at[OF kJ])
  have g2: "py_get (J[k := X]) ?a = Some X" for X
    using py_get_at[of "J[k := X]" ?a k] kJ kl by simp
  have s2: "py_set (J[k := X]) ?a Y = Some (J[k := Y])" for X Y
    using py_set_at[of "J[k := X]" ?a k Y] kJ by simp
  have g3: "py_get ?X1 2 = Some (J ! k ! 2)" by (rule anchor_row_get[OF rowlen lo])
  have s3: "py_set ?X1 2 (J ! k ! 2 + yaw) = Some (perturbed_row (J ! k) off yaw)"
    by (rule anchor_row_set[OF rowlen lo])
  have s2T: "py_set (J[k := ?X1]) ?a (perturbed_row (J ! k) off yaw) = Some T"
    unfolding T_def by (rule s2)
  have lenT: "length T = Suc (Suc m)" by (simp add: T_def lenJ)
  have widthT: "\<forall>r\<in>set T. length r = 3"
  proof
    fix r assume "r \<in> set T"
    then have "r \<in> insert (perturbed_row (J ! k) off yaw) (set J)"
      unfolding T_def using set_update_subset_insert by fastforce
    then show "length r = 3" using width by (auto simp add: perturbed_row_def)
  qed
  have c0: "column 0 T = Some (map (\<lambda>r. r ! 0) T)"
    and c1: "column 1 T = Some (map (\<lambda>r. r ! 1) T)"
    and c2: "column 2 T = Some (map (\<lambda>r. r ! 2) T)"
    using widthT by (auto intro!: column_Some)
  have sp: "compute_speeds_from_positions ?P = Some ?gv"
    by (rule speeds_explicit) (use lenT widthT in auto)
  have f0: "py_get T 0 = Some (T ! 0)" by (rule py_get_0) (simp add: lenT)
  have "length (T ! 0) = 3" using widthT lenT by simp
  then have r0: "py_get (T ! 0) 0 = Some (T ! 0 ! 0)"
    and r1: "py_get (T ! 0) 1 = Some (T ! 0 ! 1)"
    and r2: "py_get (T ! 0) 2 = Some (T ! 0 ! 2)"
    by (simp_all add: py_get_0 py_get_1 py_get_2)
  have "?gv ! 0 = forward_speed ?P 0"
    by (simp add: nth_append del: upt_Suc)
  then have v: "py_get ?gv 0 = Some (forward_speed ?P 0)"
    using py_get_0[of ?gv] by simp
  have w: "py_set (replicate (Suc (Suc m)) (1::real)) ?a 5
             = Some ((replicate (Suc (Suc m)) 1)[k := 5])"
    using py_set_at[of "replicate (Suc (Suc m)) (1::real)" ?a k 5] k
    by (simp del: replicate_Suc)
  show ?thesis
    unfolding fit_targets_def Let_def J_def[symmetric]
    by (simp only: off g1 s1 g2 g3 s3 s2T c0 c1 c2 sp f0 r0 r1 r2 v w N
          Option.bind.bind_lunit)
qed


lemma np_assign_same: "length rhs = n \<Longrightarrow> np_assign n rhs = Some rhs"
  by (simp add: np_assign_def)

lemma set_xy_same: "set_xy t (fst t, fst (snd t)) = t"
  by (simp add: set_xy_def)

lemma write_back_rows:
  "map2 (\<lambda>f (p, r). f\<lparr>ego_translation := set_xy (ego_translation f) p, ego_rotation := r\<rparr>) fs
     (zip (map (\<lambda>f. (float32 (fst (ego_translation f)), float32 (fst (snd (ego_translation f))))) fs)
          (map (\<lambda>f. y2r (float32 (r2y (ego_rotation f)))) fs))
   = map (stored_frame y2r r2y) fs"
  by (induction fs) (simp_all add: stored_frame_def)

lemma split_of_joint:
  fixes h f :: "('z, 'rot, 'm) frame_scheme list"
  shows "split_fitted_trajectory y2r h f
           (map (\<lambda>r. r ! 0) (get_history_and_future_frames_as_joint_trajectory r2y h f))
           (map (\<lambda>r. r ! 1) (get_history_and_future_frames_as_joint_trajectory r2y h f))
           (map (\<lambda>r. r ! 2) (get_history_and_future_frames_as_joint_trajectory r2y h f))
         = Some (map (stored_frame y2r r2y) h, map (stored_frame y2r r2y) f)"
proof -
  let ?J = "get_history_and_future_frames_as_joint_trajectory r2y h f"
  let ?L = "rev h @ f"
  let ?pos = "\<lambda>f :: ('z, 'rot, 'm) frame_scheme.
                (float32 (fst (ego_translation f)), float32 (fst (snd (ego_translation f))))"
  let ?rot = "\<lambda>f :: ('z, 'rot, 'm) frame_scheme. y2r (float32 (r2y (ego_rotation f)))"
  let ?row = "\<lambda>f :: ('z, 'rot, 'm) frame_scheme.
                (float32 (fst (ego_translation f)), float32 (fst (snd (ego_translation f))),
                 float32 (r2y (ego_rotation f)))"
  have J: "?J = map (pose_row r2y) ?L" by (simp add: joint_trajectory_rows)
  have z: "zip (map (\<lambda>r. r ! 0) ?J) (zip (map (\<lambda>r. r ! 1) ?J) (map (\<lambda>r. r ! 2) ?J))
            = map ?row ?L"
    unfolding J by (induction ?L) (simp_all add: pose_row_def xy_def zip_map_map zip_same_conv_map)
  have rots: "map (\<lambda>pos_yaw. y2r (snd (snd pos_yaw))) (map ?row ?L) = map ?rot ?L"
    by simp
  have poss: "map (\<lambda>pos_yaw. (fst pos_yaw, fst (snd pos_yaw))) (map ?row ?L) = map ?pos ?L"
    by simp
  have t1: "take (length h) (map ?pos ?L) = map ?pos (rev h)"
    and t2: "take (length h) (map ?rot ?L) = map ?rot (rev h)"
    and d1: "drop (length h) (map ?pos ?L) = map ?pos f"
    and d2: "drop (length h) (map ?rot ?L) = map ?rot f"
    by simp_all
  have a1: "np_assign (length h) (map ?pos (rev h)) = Some (map ?pos (rev h))"
    and a2: "np_assign (length h) (map ?rot (rev h)) = Some (map ?rot (rev h))"
    and a3: "np_assign (length f) (map ?pos f) = Some (map ?pos f)"
    and a4: "np_assign (length f) (map ?rot f) = Some (map ?rot f)"
    by (simp_all add: np_assign_same)
  have r: "rev (map (stored_frame y2r r2y) (rev h)) = map (stored_frame y2r r2y) h"
    by (simp add: rev_map)
  show ?thesis
    unfolding split_fitted_trajectory_def Let_def z rots poss t1 t2 d1 d2 a1 a2 a3 a4
    by (simp only: Option.bind.bind_lunit write_back_rows r)
qed

lemma split_fitted_trajectory_slots:
  fixes h f :: "('z, 'rot, 'm) frame_scheme list"
  assumes lx: "length new_xs = length h + length f"
    and ly: "length new_ys = length h + length f"
    and lw: "length new_yaws = length h + length f"
  shows "\<exists>nh nf. split_fitted_trajectory y2r h f new_xs new_ys new_yaws = Some (nh, nf)
     \<and> length nh = length h \<and> length nf = length f
     \<and> (\<forall>i < length h. nh ! i =
            (h ! i)\<lparr>ego_translation :=
                       set_xy (ego_translation (h ! i))
                         (new_xs ! (length h - 1 - i), new_ys ! (length h - 1 - i)),
                     ego_rotation := y2r (new_yaws ! (length h - 1 - i))\<rparr>)
     \<and> (\<forall>j < length f. nf ! j =
            (f ! j)\<lparr>ego_translation :=
                       set_xy (ego_translation (f ! j))
                         (new_xs ! (length h + j), new_ys ! (length h + j)),
                     ego_rotation := y2r (new_yaws ! (length h + j))\<rparr>)"
proof -
  let ?Z = "zip new_xs (zip new_ys new_yaws)"
  let ?P = "map (\<lambda>pos_yaw. (fst pos_yaw, fst (snd pos_yaw))) ?Z"
  let ?R = "map (\<lambda>pos_yaw. y2r (snd (snd pos_yaw))) ?Z"
  let ?upd = "\<lambda>(f :: ('z, 'rot, 'm) frame_scheme) (p, r).
                f\<lparr>ego_translation := set_xy (ego_translation f) p, ego_rotation := r\<rparr>"
  let ?nh = "rev (map2 ?upd (rev h) (zip (take (length h) ?P) (take (length h) ?R)))"
  let ?nf = "map2 ?upd f (zip (drop (length h) ?P) (drop (length h) ?R))"
  have lZ: "length ?Z = length h + length f" using lx ly lw by simp
  have a1: "np_assign (length h) (take (length h) ?P) = Some (take (length h) ?P)"
    and a2: "np_assign (length h) (take (length h) ?R) = Some (take (length h) ?R)"
    and a3: "np_assign (length f) (drop (length h) ?P) = Some (drop (length h) ?P)"
    and a4: "np_assign (length f) (drop (length h) ?R) = Some (drop (length h) ?R)"
    using lZ by (simp_all add: np_assign_same)
  have s: "split_fitted_trajectory y2r h f new_xs new_ys new_yaws = Some (?nh, ?nf)"
    unfolding split_fitted_trajectory_def Let_def
    by (simp only: a1 a2 a3 a4 Option.bind.bind_lunit)
  have l1: "length ?nh = length h" and l2: "length ?nf = length f"
    using lZ by simp_all
  have n1: "?nh ! i =
            (h ! i)\<lparr>ego_translation :=
                       set_xy (ego_translation (h ! i))
                         (new_xs ! (length h - 1 - i), new_ys ! (length h - 1 - i)),
                     ego_rotation := y2r (new_yaws ! (length h - 1 - i))\<rparr>"
    if i: "i < length h" for i
  proof -
    let ?k = "length h - 1 - i"
    have k: "?k < length h" using i by simp
    have "length h - Suc (length h - Suc i) = i" using i by arith
    then have r: "rev h ! (length h - Suc i) = h ! i" using i by (simp add: rev_nth)
    have "?nh ! i = map2 ?upd (rev h) (zip (take (length h) ?P) (take (length h) ?R)) ! ?k"
      using i lZ by (simp add: rev_nth)
    also have "\<dots> = ?upd (rev h ! ?k) (?P ! ?k, ?R ! ?k)"
      using k lZ by simp
    finally show ?thesis using k lx ly lw by (simp add: r)
  qed
  have n2: "?nf ! j =
            (f ! j)\<lparr>ego_translation :=
                       set_xy (ego_translation (f ! j))
                         (new_xs ! (length h + j), new_ys ! (length h + j)),
                     ego_rotation := y2r (new_yaws ! (length h + j))\<rparr>"
    if j: "j < length f" for j
    using j lx ly lw by simp
  from s l1 l2 n1 n2 show ?thesis by blast
qed

lemma return_copies_explicit:
  "return_copies store h f ws =
     \<lparr>returned = Some (length store, Suc (length store)), warnings = ws,
      store_after = store @ [store ! h, (store @ [store ! h]) ! f]\<rparr>"
  by (simp add: return_copies_def np_copy_def)

lemma return_copies_valid:
  assumes "f < length store"
  shows "return_copies store h f ws =
     \<lparr>returned = Some (length store, Suc (length store)), warnings = ws,
      store_after = store @ [store ! h, store ! f]\<rparr>"
  using assms by (simp add: return_copies_explicit nth_append)

lemma perturb_gate_closed:
  assumes "h < length store" "f < length store" "perturb_prob \<le> rand"
  shows "perturb r2y y2r fit perturb_prob rand offsets store h f = return_copies store h f []"
  using assms by (simp add: perturb_def)

lemma perturb_low_lateral:
  assumes "h < length store" "f < length store" "rand < perturb_prob"
    "\<bar>lat\<bar> < 1 / 100000"
  shows "perturb r2y y2r fit perturb_prob rand (lat, long, yaw) store h f
           = return_copies store h f [''ack not applied because of low lateral_distance'']"
  using assms by (simp add: perturb_def NUMERICAL_THRESHOLD_def)

lemma perturb_short:
  assumes "h < length store" "f < length store"
    "length (store ! h) + length (store ! f) < 2"
  shows "\<exists>ws. perturb r2y y2r fit perturb_prob rand offsets store h f
           = return_copies store h f ws"
  using assms by (cases offsets) (auto simp add: perturb_def Let_def)

lemma perturb_full:
  assumes "h < length store" "f < length store" "rand < perturb_prob"
    "\<not> \<bar>lat\<bar> < 1 / 100000" "\<not> length (store ! h) + length (store ! f) < 2"
  shows "perturb r2y y2r fit perturb_prob rand (lat, long, yaw) store h f =
     (case do {
              targets \<leftarrow> fit_targets r2y (store ! h) (store ! f) lat long yaw;
              (new_xs, new_ys, new_yaws, new_vs, new_acc, new_steer) \<leftarrow> fit targets;
              split_fitted_trajectory y2r (store ! h) (store ! f) new_xs new_ys new_yaws
           }
      of None \<Rightarrow> \<lparr>returned = None, warnings = [], store_after = store\<rparr>
       | Some (history_contents, future_contents) \<Rightarrow>
           \<lparr>returned = Some (length store, Suc (length store)), warnings = [],
            store_after = store @ [history_contents, future_contents]\<rparr>)"
proof -
  have u: "(store @ [a, b])[Suc (length store) := d] = store @ [a, d]"
    for a b d
    using list_update_length[of "store @ [a]" b "[]" d] by simp
  show ?thesis
    using assms
    by (simp add: perturb_def Let_def NUMERICAL_THRESHOLD_def np_copy_def np_write_def u
             split: option.splits prod.splits)
qed

lemma perturb_frame:
  assumes "h < length store" "f < length store"
  shows "take (length store) (store_after (perturb r2y y2r fit perturb_prob rand offsets store h f)) = store
    \<and> (\<forall>nh nf. returned (perturb r2y y2r fit perturb_prob rand offsets store h f) = Some (nh, nf) \<longrightarrow>
          nh = length store \<and> nf = Suc (length store)
          \<and> length (store_after (perturb r2y y2r fit perturb_prob rand offsets store h f)) = Suc (Suc (length store)))"
proof -
  obtain lat long yaw where o: "offsets = (lat, long, yaw)" by (cases offsets) auto
  consider (gate) "perturb_prob \<le> rand"
    | (low) "rand < perturb_prob" "\<bar>lat\<bar> < 1 / 100000"
    | (short) "length (store ! h) + length (store ! f) < 2"
    | (full) "rand < perturb_prob" "\<not> \<bar>lat\<bar> < 1 / 100000" "\<not> length (store ! h) + length (store ! f) < 2"
    by fastforce
  then show ?thesis
  proof cases
    case gate
    show ?thesis
      by (simp add: perturb_gate_closed[OF assms gate] return_copies_valid[OF assms(2)])
  next
    case low
    show ?thesis unfolding o
      by (simp add: perturb_low_lateral[OF assms low] return_copies_valid[OF assms(2)])
  next
    case short
    from perturb_short[OF assms short] obtain ws where
      "perturb r2y y2r fit perturb_prob rand offsets store h f = return_copies store h f ws"
      by blast
    then show ?thesis by (simp add: return_copies_valid[OF assms(2)])
  next
    case full
    show ?thesis unfolding o perturb_full[OF assms full]
      by (simp split: option.splits prod.splits)
  qed
qed


lemma anchor_index: "1 \<le> H \<Longrightarrow> H \<le> n \<Longrightarrow> py_index n (int H - 1) = Some (H - 1)"
  by (auto simp add: py_index_def)

lemma anchor_index_wraps: "1 \<le> n \<Longrightarrow> py_index n (int 0 - 1) = Some (n - 1)"
  by (auto simp add: py_index_def)

lemma fit_targets_weights:
  fixes history_frames future_frames :: "('z, 'rot, 'm) frame_scheme list"
  assumes H: "1 \<le> length history_frames"
    and N: "2 \<le> length history_frames + length future_frames"
  shows "\<exists>targets. fit_targets r2y history_frames future_frames lat long yaw = Some targets
     \<and> wgx targets = (replicate (length history_frames + length future_frames) 1)
                         [length history_frames - 1 := 5]
     \<and> wgy targets = (replicate (length history_frames + length future_frames) 1)
                         [length history_frames - 1 := 5]
     \<and> wgr targets = replicate (length history_frames + length future_frames) 0
     \<and> wgv targets = replicate (length history_frames + length future_frames) 0"
proof -
  let ?J = "get_history_and_future_frames_as_joint_trajectory r2y history_frames future_frames"
  define m where "m = length history_frames + length future_frames - 2"
  have m: "length history_frames + length future_frames = Suc (Suc m)"
    unfolding m_def using N by arith
  have "- int (length ?J) \<le> int (length history_frames) - 1"
    using N by (simp add: length_joint_trajectory)
  from get_offset_at_idx_length[OF joint_trajectory_width _ this, of lat long]
  obtain off where off: "get_offset_at_idx ?J (int (length history_frames) - 1) lat long = Some off"
    "length off = 2" by auto
  have k: "py_index (Suc (Suc m)) (int (length history_frames) - 1) = Some (length history_frames - 1)"
    using anchor_index[OF H, of "Suc (Suc m)"] m by simp
  show ?thesis
    using fit_targets_explicit[OF m off k, of yaw] by (simp add: m del: replicate_Suc)
qed

lemma sqrt_25: "sqrt 25 = 5"
  using real_sqrt_abs[of 5] by simp

section \<open>The speed estimator\<close>

text \<open>
  Claim C7. For a sequence of at least two 2D positions the speed estimator returns (it does
  not raise) as many speeds as there are positions; the speed at every index \<open>k\<close> that has
  a successor is the Euclidean distance between position \<open>k + 1\<close> and position \<open>k\<close>, and
  the last speed repeats the one before it. The positions \<open>(0,0), (3,4), (3,4)\<close> give the
  speeds \<open>5, 0, 0\<close>.
\<close>

theorem compute_speeds_forward_differences:
  assumes "2 \<le> length positions" and "\<forall>p\<in>set positions. length p = 2"
  shows "(\<exists>speeds. compute_speeds_from_positions positions = Some speeds
           \<and> length speeds = length positions
           \<and> (\<forall>k. Suc k < length positions \<longrightarrow>
                 speeds ! k = sqrt ((positions ! Suc k ! 0 - positions ! k ! 0)\<^sup>2
                                  + (positions ! Suc k ! 1 - positions ! k ! 1)\<^sup>2))
           \<and> speeds ! (length positions - 1) = speeds ! (length positions - 2))
         \<and> compute_speeds_from_positions [[0, 0], [3, 4], [3, 4]] = Some [5, 0, 0]"
proof -
  define m where "m = length positions - 2"
  have n: "length positions = Suc (Suc m)" unfolding m_def using assms(1) by arith
  have w: "\<forall>p\<in>set positions. 2 \<le> length p" using assms(2) by simp
  let ?s = "map (forward_speed positions) [0..<Suc m] @ [forward_speed positions m]"
  have s: "compute_speeds_from_positions positions = Some ?s"
    by (rule speeds_explicit[OF n w])
  have l: "length ?s = length positions" by (simp add: n)
  have f: "?s ! k = forward_speed positions k" if "Suc k < length positions" for k
    using that by (simp add: n nth_append del: upt_Suc)
  have e: "?s ! (length positions - 1) = ?s ! (length positions - 2)"
    by (simp add: n nth_append del: upt_Suc)
  have "\<forall>k. Suc k < length positions \<longrightarrow>
          ?s ! k = sqrt ((positions ! Suc k ! 0 - positions ! k ! 0)\<^sup>2
                        + (positions ! Suc k ! 1 - positions ! k ! 1)\<^sup>2)"
    using f by (simp add: forward_speed_def add.commute)
  with s l e have general: "\<exists>speeds. compute_speeds_from_positions positions = Some speeds
           \<and> length speeds = length positions
           \<and> (\<forall>k. Suc k < length positions \<longrightarrow>
                 speeds ! k = sqrt ((positions ! Suc k ! 0 - positions ! k ! 0)\<^sup>2
                                  + (positions ! Suc k ! 1 - positions ! k ! 1)\<^sup>2))
           \<and> speeds ! (length positions - 1) = speeds ! (length positions - 2)"
    by blast
  have "compute_speeds_from_positions [[0, 0], [3, 4], [3, 4]]
          = Some (map (forward_speed [[0, 0], [3, 4], [3, 4]]) [0..<Suc (Suc 0)]
                  @ [forward_speed [[0, 0], [3, 4], [3, 4]] (Suc 0)])"
    by (rule speeds_explicit) simp_all
  then have "compute_speeds_from_positions [[0, 0], [3, 4], [3, 4]] = Some [5, 0, 0]"
    by (simp add: forward_speed_def sqrt_25)
  with general show ?thesis by blast
qed

text \<open>The statement of C7 at the positions \<open>(0,0), (3,4), (3,4)\<close>.\<close>

theorem compute_speeds_forward_differences_witness:
  "2 \<le> length [[0, 0], [3, 4], [3, 4::real]]
   \<and> (\<exists>speeds. compute_speeds_from_positions [[0, 0], [3, 4], [3, 4]] = Some speeds
           \<and> length speeds = 3 \<and> speeds ! 0 = 5 \<and> speeds ! 1 = 0 \<and> speeds ! 2 = speeds ! 1)"
proof -
  have a: "2 \<le> length [[0, 0], [3, 4], [3, 4::real]]" by simp
  have b: "\<forall>p\<in>set [[0, 0], [3, 4], [3, 4::real]]. length p = 2" by simp
  from compute_speeds_forward_differences[OF a b]
  obtain speeds where s: "compute_speeds_from_positions [[0, 0], [3, 4], [3, 4]] = Some speeds"
    "length speeds = length [[0, 0], [3, 4], [3, 4::real]]"
    "\<forall>k. Suc k < length [[0, 0], [3, 4], [3, 4::real]] \<longrightarrow>
        speeds ! k = sqrt (([[0, 0], [3, 4], [3, 4]] ! Suc k ! 0 - [[0, 0], [3, 4], [3, 4]] ! k ! 0)\<^sup>2
                         + ([[0, 0], [3, 4], [3, 4]] ! Suc k ! 1 - [[0, 0], [3, 4], [3, 4]] ! k ! 1)\<^sup>2)"
    "speeds ! (length [[0, 0], [3, 4], [3, 4::real]] - 1) = speeds ! (length [[0, 0], [3, 4], [3, 4::real]] - 2)"
    by blast
  have "speeds ! 0 = 5" using s(3)[rule_format, of 0] by (simp add: sqrt_25)
  moreover have "speeds ! 1 = 0" using s(3)[rule_format, of 1] by simp
  moreover have "speeds ! 2 = speeds ! 1" using s(4) by (simp add: numeral_2_eq_2)
  ultimately show ?thesis using a s(1,2) by simp
qed

section \<open>The model on the example store\<close>

lemmas model_defs =
  perturb_def return_copies_def np_copy_def np_write_def fit_targets_def
  split_fitted_trajectory_def get_history_and_future_frames_as_joint_trajectory_def
  get_offset_at_idx_def normalized_direction_def compute_speeds_from_positions_def
  py_get_def py_set_def py_index_def column_def np_assign_def linalg_norm_def
  vsub_def vadd_def vscale_def vdiv_def xy_def set_xy_def NUMERICAL_THRESHOLD_def
  identity_fit_def Let_def

lemma example_joint:
  "get_history_and_future_frames_as_joint_trajectory id example_history example_future
     = [[0, 0, 0], [1, 0, 0]]"
  by (simp add: get_history_and_future_frames_as_joint_trajectory_def example_history_def
        example_future_def xy_def float32_values)

lemma example_offset: "get_offset_at_idx [[0, 0, 0], [1, 0, 0]] (int 1 - 1) 1 0 = Some [0, - 1]"
  by (simp add: model_defs)

lemma example_targets:
  "fit_targets id example_history example_future 1 0 0 =
     Some \<lparr>x0 = 0, y0 = - 1, r0 = 0, v0 = sqrt 2, gx = [0, 1], gy = [- 1, 0], gr = [0, 0],
           gv = [sqrt 2, sqrt 2], wgx = [5, 1], wgy = [5, 1], wgr = [0, 0], wgv = [0, 0]\<rparr>"
proof -
  have l: "length example_history + length example_future = Suc (Suc 0)"
    by (simp add: example_history_def example_future_def)
  have o: "get_offset_at_idx
             (get_history_and_future_frames_as_joint_trajectory id example_history example_future)
             (int (length example_history) - 1) 1 0 = Some [0, - 1]"
  proof -
    have "int (length example_history) - 1 = int 1 - 1" by (simp add: example_history_def)
    then show ?thesis by (simp only: example_joint example_offset)
  qed
  have k: "py_index (Suc (Suc 0)) (int (length example_history) - 1) = Some 0"
    by (simp add: py_index_def example_history_def)
  show ?thesis
    using fit_targets_explicit[OF l o _ k, of 0]
    by (simp add: example_joint perturbed_row_def forward_speed_def)
qed

lemma example_perturb:
  "perturb id id identity_fit 1 0 (1, 0, 0) example_store 0 1 =
     \<lparr>returned = Some (2, 3), warnings = [],
      store_after = [example_history, example_future,
                     [\<lparr>ego_translation = (0, - 1, 0), ego_rotation = 0\<rparr>], example_future]\<rparr>"
proof -
  have s: "split_fitted_trajectory id example_history example_future [0, 1] [- 1, 0] [0, 0]
             = Some ([\<lparr>ego_translation = (0, - 1, 0), ego_rotation = 0\<rparr>], example_future)"
    by (simp add: split_fitted_trajectory_def np_assign_def set_xy_def example_history_def
          example_future_def)
  have "perturb id id identity_fit 1 0 (1, 0, 0) example_store 0 1 =
     (case do {
              targets \<leftarrow> fit_targets id (example_store ! 0) (example_store ! 1) 1 0 0;
              (new_xs, new_ys, new_yaws, new_vs, new_acc, new_steer) \<leftarrow> identity_fit targets;
              split_fitted_trajectory id (example_store ! 0) (example_store ! 1) new_xs new_ys new_yaws
           }
      of None \<Rightarrow> \<lparr>returned = None, warnings = [], store_after = example_store\<rparr>
       | Some (history_contents, future_contents) \<Rightarrow>
           \<lparr>returned = Some (length example_store, Suc (length example_store)), warnings = [],
            store_after = example_store @ [history_contents, future_contents]\<rparr>)"
    by (rule perturb_full)
       (simp_all add: example_store_def example_history_def example_future_def)
  then show ?thesis
    by (simp add: example_store_def example_targets identity_fit_def s)
qed


section \<open>The paths of the perturbation that change nothing\<close>

text \<open>
  Claim C1. When the probability gate passes (\<open>rand < perturb_prob\<close>) and the sampled
  lateral offset is below \<open>1e-5\<close> in absolute value, \<^verbatim>\<open>perturb\<close> returns, without raising,
  two new arrays whose contents equal the caller's history and future, and emits the one
  warning; the longitudinal and the yaw offset are arbitrary.
\<close>

theorem perturb_low_lateral_offset_is_noop:
  fixes store :: "('z, 'rot, 'm) store"
    and rotation33_as_yaw :: "'rot \<Rightarrow> real" and yaw_as_rotation :: "real \<Rightarrow> 'rot"
    and fit :: "fit_args \<Rightarrow> (real list \<times> real list \<times> real list \<times> real list \<times> real list \<times> real list) option"
    and longitudinal_offset_m yaw_offset_rad :: real
  assumes "history_frames < length store" and "future_frames < length store"
    and "rand < perturb_prob" and "\<bar>lateral_offset_m\<bar> < 1 / 100000"
  defines "out \<equiv> perturb rotation33_as_yaw yaw_as_rotation fit perturb_prob rand
                    (lateral_offset_m, longitudinal_offset_m, yaw_offset_rad)
                    store history_frames future_frames"
  shows "returned out = Some (length store, Suc (length store))
       \<and> store_after out ! length store = store ! history_frames
       \<and> store_after out ! Suc (length store) = store ! future_frames
       \<and> warnings out = [''ack not applied because of low lateral_distance'']"
  unfolding out_def perturb_low_lateral[OF assms(1-4)] return_copies_valid[OF assms(2)]
  using nth_append_length[of store "store ! history_frames" "[store ! future_frames]"]
        nth_append_length[of "store @ [store ! history_frames]" "store ! future_frames" "[]"]
  by simp

text \<open>C1 on the example store, with a longitudinal offset of 5 and a yaw offset of 1.\<close>

theorem perturb_low_lateral_offset_is_noop_witness:
  "returned (perturb id id identity_fit 1 0 (0, 5, 1) example_store 0 1) = Some (2, 3)
   \<and> store_after (perturb id id identity_fit 1 0 (0, 5, 1) example_store 0 1) ! 2 = example_history
   \<and> store_after (perturb id id identity_fit 1 0 (0, 5, 1) example_store 0 1) ! 3 = example_future
   \<and> warnings (perturb id id identity_fit 1 0 (0, 5, 1) example_store 0 1)
        = [''ack not applied because of low lateral_distance'']"
  using perturb_low_lateral_offset_is_noop[where store = example_store and history_frames = 0
      and future_frames = 1 and rand = 0 and perturb_prob = 1 and lateral_offset_m = 0
      and rotation33_as_yaw = id and yaw_as_rotation = id and fit = identity_fit
      and longitudinal_offset_m = 5 and yaw_offset_rad = 1]
  by (simp add: example_store_def numeral_2_eq_2 numeral_3_eq_3)

text \<open>
  Claim C2. When history and future together hold fewer than two frames, \<^verbatim>\<open>perturb\<close>
  returns two new arrays whose contents equal the caller's, whatever the random draw, the
  probability, the sampled offsets and the fit are.
\<close>

theorem perturb_short_trajectory_is_noop:
  fixes store :: "('z, 'rot, 'm) store"
    and rotation33_as_yaw :: "'rot \<Rightarrow> real" and yaw_as_rotation :: "real \<Rightarrow> 'rot"
    and fit :: "fit_args \<Rightarrow> (real list \<times> real list \<times> real list \<times> real list \<times> real list \<times> real list) option"
    and perturb_prob rand :: real and offsets :: "real \<times> real \<times> real"
  assumes "history_frames < length store" and "future_frames < length store"
    and "length (store ! history_frames) + length (store ! future_frames) < 2"
  defines "out \<equiv> perturb rotation33_as_yaw yaw_as_rotation fit perturb_prob rand offsets
                    store history_frames future_frames"
  shows "returned out = Some (length store, Suc (length store))
       \<and> store_after out ! length store = store ! history_frames
       \<and> store_after out ! Suc (length store) = store ! future_frames"
proof -
  from perturb_short[OF assms(1-3)] obtain ws where
    "out = return_copies store history_frames future_frames ws"
    unfolding out_def by blast
  then show ?thesis
    unfolding return_copies_valid[OF assms(2)]
    using nth_append_length[of store "store ! history_frames" "[store ! future_frames]"]
          nth_append_length[of "store @ [store ! history_frames]" "store ! future_frames" "[]"]
    by simp
qed

text \<open>C2 for one history frame and no future frame, with the gate open and a lateral
  offset of one metre, so that the length check is the one that returns.\<close>

theorem perturb_short_trajectory_is_noop_witness:
  "returned (perturb id id identity_fit 1 0 (1, 0, 0) [example_history, []] 0 1) = Some (2, 3)
   \<and> store_after (perturb id id identity_fit 1 0 (1, 0, 0) [example_history, []] 0 1) ! 2
        = example_history
   \<and> store_after (perturb id id identity_fit 1 0 (1, 0, 0) [example_history, []] 0 1) ! 3 = []"
  using perturb_short_trajectory_is_noop[where store = "[example_history, []]"
      and history_frames = 0 and future_frames = 1 and rand = 0 and perturb_prob = 1
      and offsets = "(1, 0, 0)" and rotation33_as_yaw = id and yaw_as_rotation = id
      and fit = identity_fit]
  by (simp add: example_history_def numeral_2_eq_2 numeral_3_eq_3)

text \<open>
  Claim C3. When the draw is at least \<open>perturb_prob\<close>, the returned arrays hold the same
  values as the inputs and live at addresses of their own: whatever is written into the
  two returned arrays afterwards, every array the caller had, the two inputs among them,
  keeps its contents.
\<close>

theorem perturb_gate_closed_returns_independent_copies:
  fixes store :: "('z, 'rot, 'm) store"
    and rotation33_as_yaw :: "'rot \<Rightarrow> real" and yaw_as_rotation :: "real \<Rightarrow> 'rot"
    and fit :: "fit_args \<Rightarrow> (real list \<times> real list \<times> real list \<times> real list \<times> real list \<times> real list) option"
    and perturb_prob rand :: real and offsets :: "real \<times> real \<times> real"
  assumes "history_frames < length store" and "future_frames < length store"
    and "perturb_prob \<le> rand"
  defines "out \<equiv> perturb rotation33_as_yaw yaw_as_rotation fit perturb_prob rand offsets
                    store history_frames future_frames"
  shows "returned out = Some (length store, Suc (length store))
       \<and> store_after out ! length store = store ! history_frames
       \<and> store_after out ! Suc (length store) = store ! future_frames
       \<and> history_frames \<noteq> length store \<and> future_frames \<noteq> length store
       \<and> history_frames \<noteq> Suc (length store) \<and> future_frames \<noteq> Suc (length store)
       \<and> (\<forall>contents contents' a. a < length store \<longrightarrow>
             np_write (np_write (store_after out) (length store) contents)
                      (Suc (length store)) contents' ! a = store ! a)"
  unfolding out_def perturb_gate_closed[OF assms(1-3)] return_copies_valid[OF assms(2)]
  using assms(1,2)
        nth_append_length[of store "store ! history_frames" "[store ! future_frames]"]
        nth_append_length[of "store @ [store ! history_frames]" "store ! future_frames" "[]"]
  by (simp add: np_write_def nth_append)

text \<open>C3 on the example store, with probability \<open>1/2\<close> and draw \<open>3/4\<close>; both returned
  arrays are then emptied.\<close>

theorem perturb_gate_closed_returns_independent_copies_witness:
  "returned (perturb id id identity_fit (1 / 2) (3 / 4) (1, 0, 0) example_store 0 1) = Some (2, 3)
   \<and> store_after (perturb id id identity_fit (1 / 2) (3 / 4) (1, 0, 0) example_store 0 1) ! 2
        = example_history
   \<and> store_after (perturb id id identity_fit (1 / 2) (3 / 4) (1, 0, 0) example_store 0 1) ! 3
        = example_future
   \<and> np_write (np_write
         (store_after (perturb id id identity_fit (1 / 2) (3 / 4) (1, 0, 0) example_store 0 1))
         2 []) 3 [] ! 0 = example_history
   \<and> np_write (np_write
         (store_after (perturb id id identity_fit (1 / 2) (3 / 4) (1, 0, 0) example_store 0 1))
         2 []) 3 [] ! 1 = example_future"
  using perturb_gate_closed_returns_independent_copies[where store = example_store
      and history_frames = 0 and future_frames = 1 and rand = "3 / 4" and perturb_prob = "1 / 2"
      and offsets = "(1, 0, 0)" and rotation33_as_yaw = id and yaw_as_rotation = id
      and fit = identity_fit]
  by (simp add: example_store_def numeral_2_eq_2 numeral_3_eq_3)

section \<open>The caller's arrays\<close>

text \<open>
  Claim C4. On every path of \<^verbatim>\<open>perturb\<close>, also when it raises, the arrays the caller had
  before the call, the history and the future among them, hold the same values after it;
  and whenever the call returns, the two returned addresses are new: different from the
  inputs and from each other, and not in the store before the call.
\<close>

theorem perturb_preserves_inputs:
  fixes store :: "('z, 'rot, 'm) store"
    and rotation33_as_yaw :: "'rot \<Rightarrow> real" and yaw_as_rotation :: "real \<Rightarrow> 'rot"
    and fit :: "fit_args \<Rightarrow> (real list \<times> real list \<times> real list \<times> real list \<times> real list \<times> real list) option"
    and perturb_prob rand :: real and offsets :: "real \<times> real \<times> real"
  assumes "history_frames < length store" and "future_frames < length store"
  defines "out \<equiv> perturb rotation33_as_yaw yaw_as_rotation fit perturb_prob rand offsets
                    store history_frames future_frames"
  shows "store_after out ! history_frames = store ! history_frames
       \<and> store_after out ! future_frames = store ! future_frames
       \<and> take (length store) (store_after out) = store
       \<and> (\<forall>new_history new_future. returned out = Some (new_history, new_future) \<longrightarrow>
             new_history \<noteq> history_frames \<and> new_history \<noteq> future_frames
           \<and> new_future \<noteq> history_frames \<and> new_future \<noteq> future_frames
           \<and> new_history \<noteq> new_future
           \<and> length store \<le> new_history \<and> length store \<le> new_future
           \<and> new_history < length (store_after out) \<and> new_future < length (store_after out))"
proof -
  from perturb_frame[OF assms(1,2), of rotation33_as_yaw yaw_as_rotation fit perturb_prob rand offsets]
  have t: "take (length store) (store_after out) = store"
    and r: "\<forall>nh nf. returned out = Some (nh, nf) \<longrightarrow>
              nh = length store \<and> nf = Suc (length store)
              \<and> length (store_after out) = Suc (Suc (length store))"
    unfolding out_def by blast+
  have "store_after out ! a = store ! a" if "a < length store" for a
    using nth_take[OF that, of "store_after out"] t by simp
  then show ?thesis using assms(1,2) t r by auto
qed

text \<open>C4 on the full perturbation path: the example store, the gate open, a lateral offset
  of one metre; the returned history differs from the input, which is untouched.\<close>

theorem perturb_preserves_inputs_witness:
  "returned (perturb id id identity_fit 1 0 (1, 0, 0) example_store 0 1) = Some (2, 3)
   \<and> take 2 (store_after (perturb id id identity_fit 1 0 (1, 0, 0) example_store 0 1))
        = example_store
   \<and> store_after (perturb id id identity_fit 1 0 (1, 0, 0) example_store 0 1) ! 2
        = [\<lparr>ego_translation = (0, - 1, 0), ego_rotation = 0\<rparr>]"
proof -
  have a: "0 < length example_store" "1 < length example_store"
    by (simp_all add: example_store_def)
  have l: "length example_store = 2" by (simp add: example_store_def)
  have "take (length example_store)
          (store_after (perturb id id identity_fit 1 0 (1, 0, 0) example_store 0 1))
        = example_store"
    using perturb_preserves_inputs[where store = example_store
      and history_frames = 0 and future_frames = 1 and rand = 0 and perturb_prob = 1
      and offsets = "(1, 0, 0)" and rotation33_as_yaw = id and yaw_as_rotation = id
      and fit = identity_fit, OF a]
    by blast
  then have "take 2 (store_after (perturb id id identity_fit 1 0 (1, 0, 0) example_store 0 1))
        = example_store"
    by (simp only: l)
  moreover have "returned (perturb id id identity_fit 1 0 (1, 0, 0) example_store 0 1) = Some (2, 3)"
    by (simp only: example_perturb outcome.simps)
  moreover have "store_after (perturb id id identity_fit 1 0 (1, 0, 0) example_store 0 1) ! 2
        = [\<lparr>ego_translation = (0, - 1, 0), ego_rotation = 0\<rparr>]"
    unfolding example_perturb by (simp add: numeral_2_eq_2)
  ultimately show ?thesis by blast
qed

section \<open>The offset direction\<close>

text \<open>
  What \<^verbatim>\<open>get_offset_at_idx\<close> computes, for rows of any width: the zero vector when no row
  follows the index; otherwise the offset along and across the normalised difference of
  the two whole rows, or of the last and the first row when that difference is shorter
  than the threshold, or the zero vector when both are.
\<close>

lemma get_offset_at_idx_no_next:
  assumes "int (length trajectory) \<le> i + 1"
  shows "get_offset_at_idx trajectory i lat long = Some [0, 0]"
  using assms by (simp add: get_offset_at_idx_def)

lemma get_offset_at_idx_moving:
  assumes i: "Suc i < length trajectory"
    and w: "2 \<le> length (vsub (trajectory ! Suc i) (trajectory ! i))"
    and n: "1 / 100000 \<le> linalg_norm (vsub (trajectory ! Suc i) (trajectory ! i))"
  shows "get_offset_at_idx trajectory (int i) lat long =
     Some [lat * (vsub (trajectory ! Suc i) (trajectory ! i) ! 1
                    / linalg_norm (vsub (trajectory ! Suc i) (trajectory ! i)))
           + long * (vsub (trajectory ! Suc i) (trajectory ! i) ! 0
                    / linalg_norm (vsub (trajectory ! Suc i) (trajectory ! i))),
           lat * - (vsub (trajectory ! Suc i) (trajectory ! i) ! 0
                    / linalg_norm (vsub (trajectory ! Suc i) (trajectory ! i)))
           + long * (vsub (trajectory ! Suc i) (trajectory ! i) ! 1
                    / linalg_norm (vsub (trajectory ! Suc i) (trajectory ! i)))]"
proof -
  let ?d = "vsub (trajectory ! Suc i) (trajectory ! i)"
  define nrm where "nrm = linalg_norm ?d"
  obtain a b r where d: "?d = a # b # r"
    using w by (metis Suc_le_length_iff numeral_2_eq_2)
  have d0: "?d ! 0 = a" and d1: "?d ! 1 = b" by (simp_all add: d)
  have p: "py_get trajectory (int i) = Some (trajectory ! i)"
    using i by (simp add: py_get_nat)
  have q: "py_get trajectory (int i + 1) = Some (trajectory ! Suc i)"
    using py_get_nat[of "Suc i" trajectory] i by (simp add: add.commute)
  have "normalized_direction trajectory ?d = Some (map (\<lambda>c. c / nrm) ?d)"
    using n by (simp add: normalized_direction_def vdiv_def nrm_def)
  then have nd: "normalized_direction trajectory ?d
                   = Some ((a / nrm) # (b / nrm) # map (\<lambda>c. c / nrm) r)"
    by (simp only: d list.map)
  have g: "\<not> int (length trajectory) \<le> int i + 1" using i by simp
  have "get_offset_at_idx trajectory (int i) lat long =
          Some [lat * (b / nrm) + long * (a / nrm), lat * - (a / nrm) + long * (b / nrm)]"
    unfolding get_offset_at_idx_def Let_def
    by (simp only: g if_False p q nd Option.bind.bind_lunit)
       (simp add: vadd_def vscale_def py_get_def py_index_def)
  then show ?thesis by (simp only: d0 d1 nrm_def)
qed


lemma get_offset_at_idx_two_columns:
  assumes i: "Suc i < length trajectory"
    and p: "trajectory ! i = [px, py]" and q: "trajectory ! Suc i = [qx, qy]"
    and n: "1 / 100000 \<le> sqrt ((qx - px)\<^sup>2 + (qy - py)\<^sup>2)"
  shows "get_offset_at_idx trajectory (int i) lat long =
     Some [lat * ((qy - py) / sqrt ((qx - px)\<^sup>2 + (qy - py)\<^sup>2))
           + long * ((qx - px) / sqrt ((qx - px)\<^sup>2 + (qy - py)\<^sup>2)),
           lat * - ((qx - px) / sqrt ((qx - px)\<^sup>2 + (qy - py)\<^sup>2))
           + long * ((qy - py) / sqrt ((qx - px)\<^sup>2 + (qy - py)\<^sup>2))]"
proof -
  have d: "vsub (trajectory ! Suc i) (trajectory ! i) = [qx - px, qy - py]"
    by (simp add: p q vsub_def)
  have nrm: "linalg_norm [qx - px, qy - py] = sqrt ((qx - px)\<^sup>2 + (qy - py)\<^sup>2)"
    by (simp add: linalg_norm_def)
  show ?thesis
    using get_offset_at_idx_moving[OF i, of lat long] n
    by (simp add: d nrm)
qed

lemma get_offset_at_idx_stationary:
  assumes i: "Suc i < length trajectory"
    and c: "linalg_norm (vsub (trajectory ! Suc i) (trajectory ! i)) < 1 / 100000"
    and o: "linalg_norm (vsub (last trajectory) (hd trajectory)) < 1 / 100000"
  shows "get_offset_at_idx trajectory (int i) lat long = Some [0, 0]"
proof -
  have p: "py_get trajectory (int i) = Some (trajectory ! i)"
    using i by (simp add: py_get_nat)
  have q: "py_get trajectory (int i + 1) = Some (trajectory ! Suc i)"
    using py_get_nat[of "Suc i" trajectory] i by (simp add: add.commute)
  have ne: "trajectory \<noteq> []" using i by auto
  have l: "py_get trajectory (- 1) = Some (last trajectory)"
    using py_get_minus1[of trajectory] ne by (simp add: last_conv_nth Suc_le_eq)
  have f: "py_get trajectory 0 = Some (hd trajectory)"
    using py_get_0[of trajectory] ne by (simp add: hd_conv_nth)
  have nd: "normalized_direction trajectory (vsub (trajectory ! Suc i) (trajectory ! i))
              = Some [0, 0]"
    using c o by (simp add: normalized_direction_def l f Let_def)
  have g: "\<not> int (length trajectory) \<le> int i + 1" using i by simp
  show ?thesis
    unfolding get_offset_at_idx_def Let_def
    by (simp only: g if_False p q nd Option.bind.bind_lunit)
       (simp add: vadd_def vscale_def py_get_def py_index_def)
qed

lemma get_offset_at_idx_fallback:
  assumes i: "Suc i < length trajectory"
    and c: "linalg_norm (vsub (trajectory ! Suc i) (trajectory ! i)) < 1 / 100000"
    and o: "1 / 100000 \<le> linalg_norm (vsub (last trajectory) (hd trajectory))"
    and w: "2 \<le> length (vsub (last trajectory) (hd trajectory))"
  shows "get_offset_at_idx trajectory (int i) lat long =
     Some [lat * (vsub (last trajectory) (hd trajectory) ! 1
                    / linalg_norm (vsub (last trajectory) (hd trajectory)))
           + long * (vsub (last trajectory) (hd trajectory) ! 0
                    / linalg_norm (vsub (last trajectory) (hd trajectory))),
           lat * - (vsub (last trajectory) (hd trajectory) ! 0
                    / linalg_norm (vsub (last trajectory) (hd trajectory)))
           + long * (vsub (last trajectory) (hd trajectory) ! 1
                    / linalg_norm (vsub (last trajectory) (hd trajectory)))]"
proof -
  let ?d = "vsub (last trajectory) (hd trajectory)"
  define nrm where "nrm = linalg_norm ?d"
  obtain a b r where d: "?d = a # b # r"
    using w by (metis Suc_le_length_iff numeral_2_eq_2)
  have d0: "?d ! 0 = a" and d1: "?d ! 1 = b" by (simp_all add: d)
  have p: "py_get trajectory (int i) = Some (trajectory ! i)"
    using i by (simp add: py_get_nat)
  have q: "py_get trajectory (int i + 1) = Some (trajectory ! Suc i)"
    using py_get_nat[of "Suc i" trajectory] i by (simp add: add.commute)
  have ne: "trajectory \<noteq> []" using i by auto
  have l: "py_get trajectory (- 1) = Some (last trajectory)"
    using py_get_minus1[of trajectory] ne by (simp add: last_conv_nth Suc_le_eq)
  have f: "py_get trajectory 0 = Some (hd trajectory)"
    using py_get_0[of trajectory] ne by (simp add: hd_conv_nth)
  have "normalized_direction trajectory (vsub (trajectory ! Suc i) (trajectory ! i))
          = Some (map (\<lambda>c. c / nrm) ?d)"
    using c o by (simp add: normalized_direction_def l f vdiv_def nrm_def Let_def)
  then have nd: "normalized_direction trajectory (vsub (trajectory ! Suc i) (trajectory ! i))
                   = Some ((a / nrm) # (b / nrm) # map (\<lambda>c. c / nrm) r)"
    by (simp only: d list.map)
  have g: "\<not> int (length trajectory) \<le> int i + 1" using i by simp
  have "get_offset_at_idx trajectory (int i) lat long =
          Some [lat * (b / nrm) + long * (a / nrm), lat * - (a / nrm) + long * (b / nrm)]"
    unfolding get_offset_at_idx_def Let_def
    by (simp only: g if_False p q nd Option.bind.bind_lunit)
       (simp add: vadd_def vscale_def py_get_def py_index_def)
  then show ?thesis by (simp only: d0 d1 nrm_def)
qed

lemma offset_example_two_columns: "get_offset_at_idx [[0, 0], [1, 0]] 0 1 0 = Some [0, - 1]"
  using get_offset_at_idx_two_columns[of 0 "[[0, 0], [1, 0]]" 0 0 1 0 1 0] by simp

text \<open>
  Claim C5. Where the direction from point \<open>i\<close> to point \<open>i + 1\<close> has norm at least \<open>1e-5\<close>,
  the offset is \<open>lateral_m\<close> times the unit direction turned clockwise by a right angle
  plus \<open>longitudinal_m\<close> times the unit direction. On rows of two columns this is what the
  function returns (\<open>get_offset_at_idx_two_columns\<close>), and the points \<open>(0,0), (1,0)\<close> give
  \<open>(0,-1)\<close> (\<open>offset_example_two_columns\<close>). On the rows \<open>[x, y, yaw]\<close> that \<^verbatim>\<open>perturb\<close>
  passes, the function normalises by the norm of the whole row difference, yaw included.
  For a history frame at \<open>(0,0)\<close> with yaw \<open>0\<close> and a future frame at \<open>(4,0)\<close> with yaw \<open>3\<close>,
  a lateral offset of one metre moves the anchor by \<open>(0,-4/5)\<close>, where the same two points
  without the yaw column give \<open>(0,-1)\<close>.
\<close>

theorem get_offset_at_idx_norm_includes_yaw:
  "get_history_and_future_frames_as_joint_trajectory id
      [\<lparr>ego_translation = (0, 0, 0 :: real), ego_rotation = 0 :: real\<rparr>]
      [\<lparr>ego_translation = (4, 0, 0), ego_rotation = 3\<rparr>]
     = [[0, 0, 0], [4, 0, 3]]
   \<and> get_offset_at_idx [[0, 0, 0], [4, 0, 3]] 0 1 0 = Some [0, - (4 / 5)]
   \<and> get_offset_at_idx [[0, 0], [4, 0]] 0 1 0 = Some [0, - 1]"
proof -
  have "get_offset_at_idx [[0, 0, 0], [4, 0, 3]] (int 0) 1 0 = Some [0, - (4 / 5)]"
    using get_offset_at_idx_moving[of 0 "[[0, 0, 0], [4, 0, 3]]" 1 0]
    by (simp add: vsub_def linalg_norm_def sqrt_25)
  moreover have "get_offset_at_idx [[0, 0], [4, 0]] (int 0) 1 0 = Some [0, - 1]"
    using get_offset_at_idx_two_columns[of 0 "[[0, 0], [4, 0]]" 0 0 4 0 1 0] by simp
  ultimately show ?thesis
    by (simp add: get_history_and_future_frames_as_joint_trajectory_def xy_def float32_values)
qed

text \<open>
  Claim C6. The function returns the zero vector when no frame follows the index
  (\<open>get_offset_at_idx_no_next\<close>); when the direction between the two consecutive points is
  shorter than \<open>1e-5\<close> it uses the displacement from the first to the last point
  instead, and returns the zero vector when that is shorter than \<open>1e-5\<close> as well. For the
  norms of whole rows this is \<open>get_offset_at_idx_fallback\<close> and
  \<open>get_offset_at_idx_stationary\<close>. On rows \<open>[x, y, yaw]\<close> the test is on the whole row: for a
  vehicle standing at \<open>(0,0)\<close> whose yaw changes by \<open>0.001\<close> before it moves to \<open>(2,0)\<close>, the
  two consecutive points coincide, yet the function does not fall back and returns the
  zero vector, where the same points without the yaw column give \<open>(0,-1)\<close>. The joint
  trajectory holds the yaw \<open>0.001\<close> rounded to single precision; the function returns the
  zero vector on the rounded and on the unrounded rows alike.
\<close>

theorem get_offset_at_idx_yaw_blocks_fallback:
  "get_history_and_future_frames_as_joint_trajectory id
      [\<lparr>ego_translation = (0, 0, 0 :: real), ego_rotation = 0 :: real\<rparr>]
      [\<lparr>ego_translation = (0, 0, 0), ego_rotation = 1 / 1000\<rparr>,
       \<lparr>ego_translation = (2, 0, 0), ego_rotation = 1 / 1000\<rparr>]
     = [[0, 0, 0], [0, 0, 8589935 / 8589934592], [2, 0, 8589935 / 8589934592]]
   \<and> get_offset_at_idx [[0, 0, 0], [0, 0, 8589935 / 8589934592], [2, 0, 8589935 / 8589934592]]
         0 1 0 = Some [0, 0]
   \<and> get_offset_at_idx [[0, 0, 0], [0, 0, 1 / 1000], [2, 0, 1 / 1000]] 0 1 0 = Some [0, 0]
   \<and> get_offset_at_idx [[0, 0], [0, 0], [2, 0]] 0 1 0 = Some [0, - 1]"
proof -
  have r: "sqrt ((1 / 1000)\<^sup>2) = 1 / 1000" using real_sqrt_abs[of "1 / 1000"] by simp
  have r': "sqrt ((8589935 / 8589934592)\<^sup>2) = 8589935 / 8589934592"
    using real_sqrt_abs[of "8589935 / 8589934592"] by simp
  have "get_offset_at_idx [[0, 0, 0], [0, 0, 1 / 1000], [2, 0, 1 / 1000]] (int 0) 1 0
          = Some [0, 0]"
    using get_offset_at_idx_moving[of 0 "[[0, 0, 0], [0, 0, 1 / 1000], [2, 0, 1 / 1000]]" 1 0]
    by (simp add: vsub_def linalg_norm_def r)
  moreover have "get_offset_at_idx
                   [[0, 0, 0], [0, 0, 8589935 / 8589934592], [2, 0, 8589935 / 8589934592]]
                   (int 0) 1 0 = Some [0, 0]"
    using get_offset_at_idx_moving
            [of 0 "[[0, 0, 0], [0, 0, 8589935 / 8589934592], [2, 0, 8589935 / 8589934592]]" 1 0]
    by (simp add: vsub_def linalg_norm_def r')
  moreover have "get_offset_at_idx [[0, 0], [0, 0], [2, 0]] (int 0) 1 0 = Some [0, - 1]"
    using get_offset_at_idx_fallback[of 0 "[[0, 0], [0, 0], [2, 0]]" 1 0]
    by (simp add: vsub_def linalg_norm_def)
  ultimately show ?thesis
    by (simp add: get_history_and_future_frames_as_joint_trajectory_def xy_def float32_values
          float32_thousandth)
qed

section \<open>Joining and splitting\<close>

lemma joint_columns:
  fixes h f :: "('z, 'rot, 'm) frame_scheme list"
  shows "column 0 (get_history_and_future_frames_as_joint_trajectory r2y h f)
           = Some (map (\<lambda>r. r ! 0) (get_history_and_future_frames_as_joint_trajectory r2y h f))"
    and "column 1 (get_history_and_future_frames_as_joint_trajectory r2y h f)
           = Some (map (\<lambda>r. r ! 1) (get_history_and_future_frames_as_joint_trajectory r2y h f))"
    and "column 2 (get_history_and_future_frames_as_joint_trajectory r2y h f)
           = Some (map (\<lambda>r. r ! 2) (get_history_and_future_frames_as_joint_trajectory r2y h f))"
  using joint_trajectory_width[of r2y h f] by (auto intro!: column_Some)

text \<open>
  Claim C8 says that splitting the joint trajectory back reproduces history and future
  exactly. The joint trajectory is an array of single precision, and a position that is
  not a single-precision number does not come back: with one history frame at
  \<open>x = 16777217\<close> and one future frame, the history frame returns with \<open>x = 16777216\<close>. Here a
  rotation is its yaw, so that nothing but the storage changes the frame.
\<close>

theorem join_split_roundtrip_counterexample:
  "column 0 (get_history_and_future_frames_as_joint_trajectory id
              [\<lparr>ego_translation = (16777217, 0, 0 :: real), ego_rotation = 0 :: real\<rparr>]
              example_future) = Some [16777216, 1]
   \<and> column 1 (get_history_and_future_frames_as_joint_trajectory id
              [\<lparr>ego_translation = (16777217, 0, 0 :: real), ego_rotation = 0 :: real\<rparr>]
              example_future) = Some [0, 0]
   \<and> column 2 (get_history_and_future_frames_as_joint_trajectory id
              [\<lparr>ego_translation = (16777217, 0, 0 :: real), ego_rotation = 0 :: real\<rparr>]
              example_future) = Some [0, 0]
   \<and> split_fitted_trajectory id
        [\<lparr>ego_translation = (16777217, 0, 0 :: real), ego_rotation = 0 :: real\<rparr>]
        example_future [16777216, 1] [0, 0] [0, 0]
       = Some ([\<lparr>ego_translation = (16777216, 0, 0), ego_rotation = 0\<rparr>], example_future)
   \<and> split_fitted_trajectory id
        [\<lparr>ego_translation = (16777217, 0, 0 :: real), ego_rotation = 0 :: real\<rparr>]
        example_future [16777216, 1] [0, 0] [0, 0]
       \<noteq> Some ([\<lparr>ego_translation = (16777217, 0, 0), ego_rotation = 0\<rparr>], example_future)"
  by (simp add: get_history_and_future_frames_as_joint_trajectory_def column_def xy_def
        split_fitted_trajectory_def np_assign_def set_xy_def example_future_def
        float32_values float32_16777217)

text \<open>
  Claim C8, amended. The joint trajectory has \<open>H + F\<close> rows and is chronological: row \<open>k\<close>,
  for \<open>k < H\<close>, is the stored row of the history frame \<open>H - 1 - k\<close>, and row \<open>H + j\<close> is the
  stored row of the future frame \<open>j\<close>. Splitting its three columns back returns (it does
  not raise) every frame with all its other fields as they were, its position rounded to
  single precision, and its rotation taken to yaw, stored in single precision and
  converted back; so it reproduces history and future exactly whenever every position
  coordinate of the two buffers is a single-precision number and that conversion returns
  every rotation unchanged. For any fitted sequences of length \<open>H + F\<close>, the split writes
  slot \<open>H - 1 - i\<close> into the history frame \<open>i\<close> and slot \<open>H + j\<close> into the future frame \<open>j\<close>,
  the yaw converted to a rotation.
\<close>

theorem join_split_roundtrip:
  fixes history_frames future_frames :: "('z, 'rot, 'm) frame_scheme list"
  shows "length (get_history_and_future_frames_as_joint_trajectory rotation33_as_yaw
                 history_frames future_frames)
         = length history_frames + length future_frames
     \<and> (\<forall>k < length history_frames.
           get_history_and_future_frames_as_joint_trajectory rotation33_as_yaw
             history_frames future_frames ! k
           = pose_row rotation33_as_yaw (history_frames ! (length history_frames - 1 - k)))
     \<and> (\<forall>j < length future_frames.
           get_history_and_future_frames_as_joint_trajectory rotation33_as_yaw
             history_frames future_frames ! (length history_frames + j)
           = pose_row rotation33_as_yaw (future_frames ! j))
     \<and> (\<exists>xs ys yaws.
           column 0 (get_history_and_future_frames_as_joint_trajectory rotation33_as_yaw
                       history_frames future_frames) = Some xs
         \<and> column 1 (get_history_and_future_frames_as_joint_trajectory rotation33_as_yaw
                       history_frames future_frames) = Some ys
         \<and> column 2 (get_history_and_future_frames_as_joint_trajectory rotation33_as_yaw
                       history_frames future_frames) = Some yaws
         \<and> split_fitted_trajectory yaw_as_rotation history_frames future_frames xs ys yaws
             = Some (map (stored_frame yaw_as_rotation rotation33_as_yaw) history_frames,
                     map (stored_frame yaw_as_rotation rotation33_as_yaw) future_frames)
         \<and> ((\<forall>f \<in> set history_frames \<union> set future_frames.
                float32 (fst (ego_translation f)) = fst (ego_translation f)
              \<and> float32 (fst (snd (ego_translation f))) = fst (snd (ego_translation f))
              \<and> yaw_as_rotation (float32 (rotation33_as_yaw (ego_rotation f))) = ego_rotation f)
              \<longrightarrow> split_fitted_trajectory yaw_as_rotation history_frames future_frames
                    xs ys yaws
                  = Some (history_frames, future_frames)))
     \<and> (\<forall>new_xs new_ys new_yaws.
           length new_xs = length history_frames + length future_frames
         \<and> length new_ys = length history_frames + length future_frames
         \<and> length new_yaws = length history_frames + length future_frames
         \<longrightarrow> (\<exists>new_history new_future.
                split_fitted_trajectory yaw_as_rotation history_frames future_frames
                  new_xs new_ys new_yaws = Some (new_history, new_future)
              \<and> length new_history = length history_frames
              \<and> length new_future = length future_frames
              \<and> (\<forall>i < length history_frames. new_history ! i =
                    (history_frames ! i)
                      \<lparr>ego_translation :=
                         set_xy (ego_translation (history_frames ! i))
                           (new_xs ! (length history_frames - 1 - i),
                            new_ys ! (length history_frames - 1 - i)),
                       ego_rotation :=
                         yaw_as_rotation (new_yaws ! (length history_frames - 1 - i))\<rparr>)
              \<and> (\<forall>j < length future_frames. new_future ! j =
                    (future_frames ! j)
                      \<lparr>ego_translation :=
                         set_xy (ego_translation (future_frames ! j))
                           (new_xs ! (length history_frames + j),
                            new_ys ! (length history_frames + j)),
                       ego_rotation :=
                         yaw_as_rotation (new_yaws ! (length history_frames + j))\<rparr>)))"
proof -
  let ?J = "get_history_and_future_frames_as_joint_trajectory rotation33_as_yaw
              history_frames future_frames"
  let ?n = "stored_frame yaw_as_rotation rotation33_as_yaw"
  have len: "length ?J = length history_frames + length future_frames"
    by (rule length_joint_trajectory)
  have J: "?J = map (pose_row rotation33_as_yaw) (rev history_frames)
                @ map (pose_row rotation33_as_yaw) future_frames"
    by (rule joint_trajectory_rows)
  have hist: "\<forall>k < length history_frames.
                ?J ! k = pose_row rotation33_as_yaw
                           (history_frames ! (length history_frames - 1 - k))"
    unfolding J by (simp add: nth_append rev_nth)
  have fut: "\<forall>j < length future_frames.
               ?J ! (length history_frames + j) = pose_row rotation33_as_yaw (future_frames ! j)"
    unfolding J by (simp add: nth_append)
  have s: "split_fitted_trajectory yaw_as_rotation history_frames future_frames
             (map (\<lambda>r. r ! 0) ?J) (map (\<lambda>r. r ! 1) ?J) (map (\<lambda>r. r ! 2) ?J)
           = Some (map ?n history_frames, map ?n future_frames)"
    by (rule split_of_joint)
  have i: "map ?n fs = fs"
    if "\<forall>f \<in> set fs.
          float32 (fst (ego_translation f)) = fst (ego_translation f)
        \<and> float32 (fst (snd (ego_translation f))) = fst (snd (ego_translation f))
        \<and> yaw_as_rotation (float32 (rotation33_as_yaw (ego_rotation f))) = ego_rotation f"
    for fs :: "('z, 'rot, 'm) frame_scheme list"
    using that by (induction fs) (simp_all add: stored_frame_def set_xy_same)
  have exact: "(\<forall>f \<in> set history_frames \<union> set future_frames.
                float32 (fst (ego_translation f)) = fst (ego_translation f)
              \<and> float32 (fst (snd (ego_translation f))) = fst (snd (ego_translation f))
              \<and> yaw_as_rotation (float32 (rotation33_as_yaw (ego_rotation f))) = ego_rotation f)
          \<longrightarrow> split_fitted_trajectory yaw_as_rotation history_frames future_frames
                 (map (\<lambda>r. r ! 0) ?J) (map (\<lambda>r. r ! 1) ?J) (map (\<lambda>r. r ! 2) ?J)
                = Some (history_frames, future_frames)"
    using s i[of history_frames] i[of future_frames] by auto
  have cols: "\<exists>xs ys yaws.
           column 0 ?J = Some xs \<and> column 1 ?J = Some ys \<and> column 2 ?J = Some yaws
         \<and> split_fitted_trajectory yaw_as_rotation history_frames future_frames xs ys yaws
             = Some (map ?n history_frames, map ?n future_frames)
         \<and> ((\<forall>f \<in> set history_frames \<union> set future_frames.
                float32 (fst (ego_translation f)) = fst (ego_translation f)
              \<and> float32 (fst (snd (ego_translation f))) = fst (snd (ego_translation f))
              \<and> yaw_as_rotation (float32 (rotation33_as_yaw (ego_rotation f))) = ego_rotation f)
              \<longrightarrow> split_fitted_trajectory yaw_as_rotation history_frames future_frames
                    xs ys yaws
                  = Some (history_frames, future_frames))"
    using s exact joint_columns[of rotation33_as_yaw history_frames future_frames] by blast
  have slots: "\<forall>new_xs new_ys new_yaws.
           length new_xs = length history_frames + length future_frames
         \<and> length new_ys = length history_frames + length future_frames
         \<and> length new_yaws = length history_frames + length future_frames
         \<longrightarrow> (\<exists>new_history new_future.
                split_fitted_trajectory yaw_as_rotation history_frames future_frames
                  new_xs new_ys new_yaws = Some (new_history, new_future)
              \<and> length new_history = length history_frames
              \<and> length new_future = length future_frames
              \<and> (\<forall>i < length history_frames. new_history ! i =
                    (history_frames ! i)
                      \<lparr>ego_translation :=
                         set_xy (ego_translation (history_frames ! i))
                           (new_xs ! (length history_frames - 1 - i),
                            new_ys ! (length history_frames - 1 - i)),
                       ego_rotation :=
                         yaw_as_rotation (new_yaws ! (length history_frames - 1 - i))\<rparr>)
              \<and> (\<forall>j < length future_frames. new_future ! j =
                    (future_frames ! j)
                      \<lparr>ego_translation :=
                         set_xy (ego_translation (future_frames ! j))
                           (new_xs ! (length history_frames + j),
                            new_ys ! (length history_frames + j)),
                       ego_rotation :=
                         yaw_as_rotation (new_yaws ! (length history_frames + j))\<rparr>))"
    using split_fitted_trajectory_slots[of _ history_frames future_frames _ _ yaw_as_rotation]
    by blast
  from len hist fut cols slots show ?thesis by (intro conjI)
qed

text \<open>C8 on the example store, where a rotation is its yaw and every coordinate is a
  single-precision number.\<close>

theorem join_split_roundtrip_witness:
  "split_fitted_trajectory id example_history example_future [0, 1] [0, 0] [0, 0]
     = Some (example_history, example_future)"
proof -
  from join_split_roundtrip[of id example_history example_future id]
  obtain xs ys yaws where
    c: "column 0 (get_history_and_future_frames_as_joint_trajectory id
                   example_history example_future) = Some xs"
       "column 1 (get_history_and_future_frames_as_joint_trajectory id
                   example_history example_future) = Some ys"
       "column 2 (get_history_and_future_frames_as_joint_trajectory id
                   example_history example_future) = Some yaws"
    and r: "(\<forall>f \<in> set example_history \<union> set example_future.
                float32 (fst (ego_translation f)) = fst (ego_translation f)
              \<and> float32 (fst (snd (ego_translation f))) = fst (snd (ego_translation f))
              \<and> id (float32 (id (ego_rotation f))) = ego_rotation f)
            \<longrightarrow> split_fitted_trajectory id example_history example_future xs ys yaws
                  = Some (example_history, example_future)"
    by blast
  have "xs = [0, 1]" using c(1) by (simp add: example_joint column_def)
  moreover have "ys = [0, 0]" using c(2) by (simp add: example_joint column_def)
  moreover have "yaws = [0, 0]" using c(3) by (simp add: example_joint column_def)
  moreover have "\<forall>f \<in> set example_history \<union> set example_future.
                float32 (fst (ego_translation f)) = fst (ego_translation f)
              \<and> float32 (fst (snd (ego_translation f))) = fst (snd (ego_translation f))
              \<and> id (float32 (id (ego_rotation f))) = ego_rotation f"
    by (simp add: example_history_def example_future_def float32_values)
  ultimately show ?thesis using r by blast
qed

section \<open>The weights of the fit\<close>

text \<open>
  Claim C9 puts the weight 5 at index \<open>H - 1\<close> for every \<open>H\<close> and \<open>F\<close> with \<open>H + F \<ge> 2\<close>. With
  an empty history and two future frames the index \<open>H - 1\<close> is \<open>-1\<close>, which Python reads
  from the end: the weight 5 sits at index \<open>1\<close>.
\<close>

theorem fit_weights_empty_history_counterexample:
  "map_option wgx (fit_targets id [] (example_history @ example_future) 1 0 0) = Some [1, 5]
   \<and> map_option wgy (fit_targets id [] (example_history @ example_future) 1 0 0) = Some [1, 5]
   \<and> int (length ([] :: (real, real) frame list)) - 1 \<noteq> 1"
proof -
  let ?f = "example_history @ example_future"
  have j: "get_history_and_future_frames_as_joint_trajectory id [] ?f = [[0, 0, 0], [1, 0, 0]]"
    by (simp add: get_history_and_future_frames_as_joint_trajectory_def example_history_def
          example_future_def xy_def float32_values)
  have l: "length ([] :: (real, real) frame list) + length ?f = Suc (Suc 0)"
    by (simp add: example_history_def example_future_def)
  have "get_offset_at_idx [[0, 0, 0], [1, 0, 0]] (- 1) 1 0 = Some [0, 1]"
    by (simp add: model_defs)
  then have o: "get_offset_at_idx (get_history_and_future_frames_as_joint_trajectory id [] ?f)
             (int (length ([] :: (real, real) frame list)) - 1) 1 0 = Some [0, 1]"
    by (simp add: j)
  have k: "py_index (Suc (Suc 0)) (int (length ([] :: (real, real) frame list)) - 1) = Some 1"
    by (simp add: py_index_def)
  show ?thesis
    using fit_targets_explicit[OF l o _ k, of 0] by simp
qed

text \<open>
  Claim C9, amended. With at least one history frame and at least two frames in all, the
  targets of the fit are computed (nothing raises), the weight arrays for \<open>x\<close> and \<open>y\<close> have
  length \<open>H + F\<close>, with 5 at index \<open>H - 1\<close> and 1 at every other index, and the weight
  arrays for yaw and speed are all zero. By \<open>perturb_full\<close> these targets are the argument
  of the fit in \<^verbatim>\<open>perturb\<close>.
\<close>

theorem fit_weights_anchor:
  fixes history_frames future_frames :: "('z, 'rot, 'm) frame_scheme list"
  assumes "1 \<le> length history_frames"
    and "2 \<le> length history_frames + length future_frames"
  shows "\<exists>targets.
       fit_targets rotation33_as_yaw history_frames future_frames
         lateral_offset_m longitudinal_offset_m yaw_offset_rad = Some targets
     \<and> length (wgx targets) = length history_frames + length future_frames
     \<and> length (wgy targets) = length history_frames + length future_frames
     \<and> (\<forall>k < length history_frames + length future_frames.
           wgx targets ! k = (if k = length history_frames - 1 then 5 else 1)
         \<and> wgy targets ! k = (if k = length history_frames - 1 then 5 else 1))
     \<and> wgr targets = replicate (length history_frames + length future_frames) 0
     \<and> wgv targets = replicate (length history_frames + length future_frames) 0"
proof -
  let ?n = "length history_frames + length future_frames"
  from fit_targets_weights[OF assms, of rotation33_as_yaw lateral_offset_m
         longitudinal_offset_m yaw_offset_rad]
  obtain targets where t:
    "fit_targets rotation33_as_yaw history_frames future_frames
       lateral_offset_m longitudinal_offset_m yaw_offset_rad = Some targets"
    "wgx targets = (replicate ?n 1)[length history_frames - 1 := 5]"
    "wgy targets = (replicate ?n 1)[length history_frames - 1 := 5]"
    "wgr targets = replicate ?n 0" "wgv targets = replicate ?n 0"
    by blast
  have "(replicate ?n (1::real))[length history_frames - 1 := 5] ! k
          = (if k = length history_frames - 1 then 5 else 1)" if "k < ?n" for k
    using that by (simp add: nth_list_update)
  with t show ?thesis by simp
qed

text \<open>C9 on the example store: one history frame, one future frame.\<close>

theorem fit_weights_anchor_witness:
  "map_option wgx (fit_targets id example_history example_future 1 0 0) = Some [5, 1]
   \<and> map_option wgy (fit_targets id example_history example_future 1 0 0) = Some [5, 1]
   \<and> map_option wgr (fit_targets id example_history example_future 1 0 0) = Some [0, 0]
   \<and> map_option wgv (fit_targets id example_history example_future 1 0 0) = Some [0, 0]"
proof -
  have a: "1 \<le> length example_history" "2 \<le> length example_history + length example_future"
    by (simp_all add: example_history_def example_future_def)
  have n: "length example_history + length example_future = 2" "length example_history - 1 = 0"
    by (simp_all add: example_history_def example_future_def)
  from fit_weights_anchor[OF a, of id 1 0 0]
  obtain targets where t: "fit_targets id example_history example_future 1 0 0 = Some targets"
    and l: "length (wgx targets) = 2" "length (wgy targets) = 2"
    and w: "\<forall>k < 2. wgx targets ! k = (if k = 0 then 5 else 1)
                  \<and> wgy targets ! k = (if k = 0 then 5 else 1)"
    and z: "wgr targets = replicate 2 0" "wgv targets = replicate 2 0"
    unfolding n by blast
  have "wgx targets = [wgx targets ! 0, wgx targets ! 1]"
       "wgy targets = [wgy targets ! 0, wgy targets ! 1]"
    by (rule two_elements[OF l(1)]) (rule two_elements[OF l(2)])
  moreover have "wgx targets ! 0 = 5" "wgx targets ! 1 = 1" "wgy targets ! 0 = 5" "wgy targets ! 1 = 1"
    using w by simp_all
  ultimately have "wgx targets = [5, 1]" "wgy targets = [5, 1]" by simp_all
  then show ?thesis using t z by (simp add: numeral_2_eq_2)
qed

section \<open>No future frames\<close>

text \<open>
  Claim C10. With no future frame and at least two history frames the anchor is the last
  row of the joint trajectory, the offset at the anchor is the zero vector, and the
  targets of the fit are the positions of the history as the joint trajectory stores
  them, unchanged, and its stored yaws with the yaw offset added at the anchor, the most
  recent history frame.
\<close>

theorem anchor_offset_zero_without_future:
  fixes history_frames :: "('z, 'rot, 'm) frame_scheme list"
  assumes "2 \<le> length history_frames"
  shows "get_offset_at_idx
           (get_history_and_future_frames_as_joint_trajectory rotation33_as_yaw history_frames [])
           (int (length history_frames) - 1) lateral_offset_m longitudinal_offset_m = Some [0, 0]
     \<and> (\<exists>targets.
           fit_targets rotation33_as_yaw history_frames []
             lateral_offset_m longitudinal_offset_m yaw_offset_rad = Some targets
         \<and> gx targets = map (\<lambda>f. float32 (fst (ego_translation f))) (rev history_frames)
         \<and> gy targets = map (\<lambda>f. float32 (fst (snd (ego_translation f)))) (rev history_frames)
         \<and> gr targets =
             (map (\<lambda>f. float32 (rotation33_as_yaw (ego_rotation f))) (rev history_frames))
               [length history_frames - 1 :=
                  float32 (rotation33_as_yaw (ego_rotation (hd history_frames)))
                  + yaw_offset_rad])"
proof -
  let ?h = history_frames
  let ?J = "get_history_and_future_frames_as_joint_trajectory rotation33_as_yaw ?h []"
  let ?k = "length ?h - 1"
  define m where "m = length ?h - 2"
  have n: "length ?h + length ([] :: ('z, 'rot, 'm) frame_scheme list) = Suc (Suc m)"
    unfolding m_def using assms by simp
  have J: "?J = map (pose_row rotation33_as_yaw) (rev ?h)"
    by (simp add: joint_trajectory_rows)
  have o: "get_offset_at_idx ?J (int (length ?h) - 1) lateral_offset_m longitudinal_offset_m
             = Some [0, 0]"
    by (rule get_offset_at_idx_no_next) (simp add: length_joint_trajectory)
  have k: "py_index (Suc (Suc m)) (int (length ?h) - 1) = Some ?k"
    using anchor_index[of "length ?h" "Suc (Suc m)"] n assms by simp
  have kl: "?k < length ?J" using assms by (simp add: length_joint_trajectory)
  have row: "?J ! ?k = pose_row rotation33_as_yaw (hd ?h)"
  proof -
    have "?h \<noteq> []" using assms by auto
    then have "rev ?h ! ?k = hd ?h"
      using last_rev[of ?h] last_conv_nth[of "rev ?h"] by simp
    then show ?thesis using kl by (simp add: J)
  qed
  let ?T = "?J[?k := perturbed_row (?J ! ?k) [0, 0] yaw_offset_rad]"
  have p: "perturbed_row (?J ! ?k) [0, 0] yaw_offset_rad
             = [?J ! ?k ! 0, ?J ! ?k ! 1,
                float32 (rotation33_as_yaw (ego_rotation (hd ?h))) + yaw_offset_rad]"
  proof -
    have "?J ! ?k ! 2 = float32 (rotation33_as_yaw (ego_rotation (hd ?h)))"
      unfolding row by (simp add: pose_row_def xy_def)
    then show ?thesis unfolding perturbed_row_def by simp
  qed
  have c0: "map (\<lambda>r. r ! 0) ?T = map (\<lambda>f. float32 (fst (ego_translation f))) (rev ?h)"
    unfolding p by (simp add: map_update J pose_row_def xy_def list_update_same_conv kl[unfolded J, simplified] o_def)
  have c1: "map (\<lambda>r. r ! 1) ?T = map (\<lambda>f. float32 (fst (snd (ego_translation f)))) (rev ?h)"
    unfolding p by (simp add: map_update J pose_row_def xy_def list_update_same_conv kl[unfolded J, simplified] o_def)
  have c2: "map (\<lambda>r. r ! 2) ?T
              = (map (\<lambda>f. float32 (rotation33_as_yaw (ego_rotation f))) (rev ?h))
                  [?k := float32 (rotation33_as_yaw (ego_rotation (hd ?h))) + yaw_offset_rad]"
    unfolding p by (simp add: map_update J pose_row_def xy_def o_def)
  show ?thesis
    using fit_targets_explicit[OF n o _ k, of yaw_offset_rad] o c0 c1 c2 by simp
qed

text \<open>C10 for two history frames, the most recent at \<open>(1,0)\<close>, and a yaw offset of \<open>1/2\<close>.\<close>

theorem anchor_offset_zero_without_future_witness:
  "get_offset_at_idx
     (get_history_and_future_frames_as_joint_trajectory id (example_future @ example_history) [])
     1 1 0 = Some [0, 0]
   \<and> map_option gx (fit_targets id (example_future @ example_history) [] 1 0 (1 / 2)) = Some [0, 1]
   \<and> map_option gy (fit_targets id (example_future @ example_history) [] 1 0 (1 / 2)) = Some [0, 0]
   \<and> map_option gr (fit_targets id (example_future @ example_history) [] 1 0 (1 / 2))
        = Some [0, 1 / 2]"
proof -
  have a: "2 \<le> length (example_future @ example_history)"
    by (simp add: example_history_def example_future_def)
  show ?thesis
    using anchor_offset_zero_without_future[OF a, of id 1 0 "1 / 2"]
    by (auto simp add: example_history_def example_future_def float32_values)
qed

end
